theory Spec2Isabelle
  imports Main "HOL-Library.Signed_Division"
begin

section \<open>The permashift plugin (permashift.c) over a model of its host\<close>

text \<open>
  The plugin is a set of callbacks of the Video Disk Recorder (VDR). Its own state is the five
  members of \<open>cPluginPermashift\<close> and the two globals \<open>g_enablePlugin\<close> and
  \<open>g_maxLength\<close>. Everything else it touches belongs to the host: the timer list, the
  record controls, the recording index, the channel directory, the setup thresholds, the clock,
  the idle status and the confirmation prompt. The host's state is part of the record
  \<open>world\<close> below, and every call of the plugin into the host that has an effect is
  appended to \<open>trace\<close>, so that "calls", "does not call" and "calls once" are statements
  about the trace.

  C's \<open>int\<close> is modelled by \<open>int\<close>; \<open>/\<close> and \<open>%\<close> are the truncating
  \<open>sdiv\<close> and \<open>smod\<close>. No computation of the plugin leaves the 32-bit range on the
  inputs considered below (times of day, hour counts, a tick counter that is reset at 60).
\<close>

subsection \<open>Host objects\<close>

text \<open>A \<open>cTimer*\<close>: the address of a timer object. \<open>NULL\<close> is \<open>None\<close> of
  \<open>timer_ref option\<close>.\<close>

type_synonym timer_ref = nat

text \<open>The part of \<open>cTimer\<close> the plugin reads or writes: \<open>Priority()\<close>,
  \<open>Lifetime()\<close>, \<open>Start()\<close>, the stop time of day written by \<open>SetStop\<close>,
  \<open>IsSingleEvent()\<close>, \<open>Recording()\<close>, the absolute \<open>StopTime()\<close> the host
  reports, and the mark left by \<open>Skip()\<close>.\<close>

record cTimer =
  tPriority :: int
  tLifetime :: int
  tStart :: int
  tStop :: int
  tIsSingleEvent :: bool
  tRecording :: bool
  tStopTime :: int
  tSkipped :: bool

text \<open>An entry of the recording index: its file name, and whether the host will succeed in
  deleting its storage (the result of \<open>cRecording::Delete()\<close>).\<close>

record cRecording =
  rFileName :: string
  rDeleteOk :: bool

datatype eTimerChange = tcMod | tcAdd | tcDel

text \<open>What the user does while a prompt is shown: a key, or nothing until the timeout.\<close>

datatype eKeys = kOk | kOther | kNone

text \<open>The calls into the host that have an effect, as recorded in the trace.\<close>

datatype hostcall =
    H_esyslog string
  | H_Confirm string int bool
  | H_RecordControls_Start bool
  | H_SetPriority timer_ref int
  | H_SetStop timer_ref int
  | H_Skip timer_ref
  | H_RecordControls_Process int
  | H_Timers_Del timer_ref
  | H_Timers_SetModified
  | H_Recording_Delete string
  | H_Recordings_DelByName "string option"

subsection \<open>The state: plugin members, globals, host\<close>

record world =
  \<comment> \<open>globals of permashift.c\<close>
  g_enablePlugin :: bool
  g_maxLength :: int
  \<comment> \<open>members of cPluginPermashift\<close>
  m_liveTimer :: "timer_ref option"
  m_fileName :: "string option"
  m_startingRecording :: bool
  m_stoppingRecording :: bool
  m_mainThreadCounter :: int
  \<comment> \<open>host: timer objects by address, and the list \<open>Timers\<close> of live timers\<close>
  heap :: "timer_ref \<Rightarrow> cTimer"
  Timers :: "timer_ref list"
  TimersModified :: bool
  \<comment> \<open>host: channel numbers of \<open>Channels\<close>\<close>
  Channels :: "int list"
  \<comment> \<open>host: active record controls (timer, file name)\<close>
  RecordControls :: "(timer_ref \<times> string) list"
  \<comment> \<open>host: the recording index, and the file names whose storage has been deleted\<close>
  Recordings :: "cRecording list"
  DeletedStorage :: "string list"
  \<comment> \<open>host: \<open>Setup.PausePriority\<close>, \<open>Setup.PauseLifetime\<close>, \<open>TRANSFERPRIORITY\<close>\<close>
  PausePriority :: int
  PauseLifetime :: int
  TRANSFERPRIORITY :: int
  \<comment> \<open>host: \<open>time(NULL)\<close>, \<open>ShutdownHandler.IsUserInactive()\<close>, the user's answer to a prompt\<close>
  now :: int
  UserInactive :: bool
  PromptKey :: eKeys
  \<comment> \<open>host: what \<open>cRecordControls::Start(NULL, true)\<close> will create, if anything:
      the address and contents of the instant timer, the recording's name and file name\<close>
  InstantRecord :: "(timer_ref \<times> cTimer \<times> string \<times> string) option"
  \<comment> \<open>the calls made into the host, oldest first\<close>
  trace :: "hostcall list"

subsection \<open>Host operations without notifications\<close>

text \<open>Modelled from the spec: the host's logging sink, \<open>esyslog\<close> (single-line error
  messages). It is not part of this repository.\<close>

definition esyslog :: "string \<Rightarrow> world \<Rightarrow> world" where
  "esyslog msg s = s\<lparr>trace := trace s @ [H_esyslog msg]\<rparr>"

text \<open>Modelled from the spec: the channel directory's lookup-by-number,
  \<open>Channels.GetByNumber\<close>; \<open>None\<close> is the \<open>NULL\<close> of a number not found.\<close>

definition Channels_GetByNumber :: "world \<Rightarrow> int \<Rightarrow> int option" where
  "Channels_GetByNumber s n = List.find (\<lambda>c. c = n) (Channels s)"

text \<open>Modelled from the spec: find-active-control-for-timer,
  \<open>cRecordControls::GetRecordControl(timer)\<close> followed by \<open>FileName()\<close>.\<close>

definition GetRecordControl_FileName :: "world \<Rightarrow> timer_ref \<Rightarrow> string option" where
  "GetRecordControl_FileName s t = map_of (RecordControls s) t"

text \<open>Modelled from the spec: the recording index's lookup-by-file-path,
  \<open>Recordings.GetByName\<close>. A \<open>NULL\<close> name finds nothing.\<close>

definition Recordings_GetByName :: "world \<Rightarrow> string option \<Rightarrow> cRecording option" where
  "Recordings_GetByName s FileName =
     (case FileName of
        None \<Rightarrow> None
      | Some f \<Rightarrow> List.find (\<lambda>r. rFileName r = f) (Recordings s))"

text \<open>Modelled from the spec: \<open>cRecording::Delete()\<close> deletes the storage of a recording and
  reports whether that worked. The index is not changed by it.\<close>

definition Recording_Delete :: "cRecording \<Rightarrow> world \<Rightarrow> bool \<times> world" where
  "Recording_Delete r s =
     (let s1 = s\<lparr>trace := trace s @ [H_Recording_Delete (rFileName r)]\<rparr>
      in if rDeleteOk r
         then (True, s1\<lparr>DeletedStorage := DeletedStorage s1 @ [rFileName r]\<rparr>)
         else (False, s1))"

text \<open>Removing the first element that satisfies a predicate: the list operation behind
  delete-by-file-path.\<close>

fun remove_first :: "('a \<Rightarrow> bool) \<Rightarrow> 'a list \<Rightarrow> 'a list" where
  "remove_first P [] = []"
| "remove_first P (x # xs) = (if P x then xs else x # remove_first P xs)"

text \<open>Modelled from the spec: the recording index's delete-by-file-path,
  \<open>Recordings.DelByName\<close>: the entry that \<open>GetByName\<close> finds leaves the index.\<close>

definition Recordings_DelByName :: "string option \<Rightarrow> world \<Rightarrow> world" where
  "Recordings_DelByName FileName s =
     (let s1 = s\<lparr>trace := trace s @ [H_Recordings_DelByName FileName]\<rparr>
      in case FileName of
           None \<Rightarrow> s1
         | Some f \<Rightarrow> s1\<lparr>Recordings := remove_first (\<lambda>r. rFileName r = f) (Recordings s1)\<rparr>)"

text \<open>Modelled from the spec: \<open>cTimer::SetPriority\<close>, \<open>cTimer::SetStop\<close> and
  \<open>cTimer::Skip\<close> ("mark the timer to be skipped/stopped") on the object at an address.\<close>

definition Timer_SetPriority :: "timer_ref \<Rightarrow> int \<Rightarrow> world \<Rightarrow> world" where
  "Timer_SetPriority t p s =
     s\<lparr>heap := (heap s)(t := (heap s t)\<lparr>tPriority := p\<rparr>),
       trace := trace s @ [H_SetPriority t p]\<rparr>"

definition Timer_SetStop :: "timer_ref \<Rightarrow> int \<Rightarrow> world \<Rightarrow> world" where
  "Timer_SetStop t v s =
     s\<lparr>heap := (heap s)(t := (heap s t)\<lparr>tStop := v\<rparr>),
       trace := trace s @ [H_SetStop t v]\<rparr>"

definition Timer_Skip :: "timer_ref \<Rightarrow> world \<Rightarrow> world" where
  "Timer_Skip t s =
     s\<lparr>heap := (heap s)(t := (heap s t)\<lparr>tSkipped := True\<rparr>),
       trace := trace s @ [H_Skip t]\<rparr>"

text \<open>Modelled from the spec: mark-modified of the timer directory, \<open>Timers.SetModified\<close>.\<close>

definition Timers_SetModified :: "world \<Rightarrow> world" where
  "Timers_SetModified s = s\<lparr>TimersModified := True, trace := trace s @ [H_Timers_SetModified]\<rparr>"

text \<open>Modelled from the spec: the blocking prompt \<open>Interface->Confirm(s, Seconds,
  WaitForTimeout)\<close>. With \<open>WaitForTimeout\<close> the answer is true when the timeout passes
  without a key, otherwise it is true when the key is Ok.\<close>

definition Interface_Confirm :: "string \<Rightarrow> int \<Rightarrow> bool \<Rightarrow> world \<Rightarrow> bool \<times> world" where
  "Interface_Confirm msg Seconds WaitForTimeout s =
     ((if WaitForTimeout then PromptKey s = kNone else PromptKey s = kOk),
      s\<lparr>trace := trace s @ [H_Confirm msg Seconds WaitForTimeout]\<rparr>)"

subsection \<open>The stop time of the claimed timer (permashift.c, lines 301 to 306)\<close>

definition newStopTime :: "int \<Rightarrow> int \<Rightarrow> int" where
  "newStopTime start0 maxLength =
     (let start = start0 sdiv 100 * 60 + start0 smod 100;
          newLength = maxLength * 60;
          newStopTime1 = start + newLength;
          newStopTime2 = (newStopTime1 sdiv 60) * 100 + (newStopTime1 smod 60)
      in if newStopTime2 \<ge> 2400 then newStopTime2 - 2400 else newStopTime2)"

subsection \<open>cPluginPermashift::TimerChange and cPluginPermashift::Recording\<close>

definition TimerChange :: "world \<Rightarrow> timer_ref option \<Rightarrow> eTimerChange \<Rightarrow> world" where
  "TimerChange s Timer Change =
     (case Timer of
        None \<Rightarrow> s
      | Some t \<Rightarrow>
          if Change = tcAdd then
            (if m_startingRecording s then
               (let s1 = s\<lparr>m_liveTimer := Some t\<rparr>;
                    s2 = Timer_SetPriority t (TRANSFERPRIORITY s1 - 1) s1
                in Timer_SetStop t (newStopTime (tStart (heap s2 t)) (g_maxLength s2)) s2)
             else s)
          else if Change = tcDel then
            (if \<not> m_stoppingRecording s \<and> Some t = m_liveTimer s then
               (let s1 =
                      (if tIsSingleEvent (heap s t) \<and> \<not> tRecording (heap s t)
                          \<and> tStopTime (heap s t) \<le> now s
                       then (case Recordings_GetByName s (m_fileName s) of
                               None \<Rightarrow> s
                             | Some recording \<Rightarrow>
                                 (case Recording_Delete recording s of
                                    (True, s') \<Rightarrow> Recordings_DelByName (m_fileName s') s'
                                  | (False, s') \<Rightarrow> s'))
                       else s)
                in s1\<lparr>m_liveTimer := None\<rparr>)
             else s)
          else s)"

text \<open>The recording notification. The device and \<open>Name\<close> (which the host passes as
  \<open>NULL\<close> when a recording ends) are not used.\<close>

definition Recording :: "world \<Rightarrow> string option \<Rightarrow> string \<Rightarrow> bool \<Rightarrow> world" where
  "Recording s Name FileName On =
     (if On then (if m_startingRecording s then s\<lparr>m_fileName := Some FileName\<rparr> else s)
      else s)"

subsection \<open>Host operations that notify the plugin while they run\<close>

text \<open>Modelled from the spec: delete-by-reference of the timer directory, \<open>Timers.Del\<close>.
  The host tells its status monitors that the timer is being deleted ("add/delete notification
  stream") and then takes the object out of the list, where an object occurs at most once.\<close>

definition Timers_Del :: "timer_ref \<Rightarrow> world \<Rightarrow> world" where
  "Timers_Del t s =
     (let s1 = TimerChange (s\<lparr>trace := trace s @ [H_Timers_Del t]\<rparr>) (Some t) tcDel
      in s1\<lparr>Timers := removeAll t (Timers s1)\<rparr>)"

text \<open>Modelled from the spec: force-immediate-state-processing,
  \<open>cRecordControls::Process\<close>: every record control whose timer has been skipped is stopped,
  its timer no longer records, and the end of the recording is notified.\<close>

fun stop_controls :: "(timer_ref \<times> string) list \<Rightarrow> world \<Rightarrow> world" where
  "stop_controls [] s = s"
| "stop_controls ((ti, f) # rest) s =
     (if tSkipped (heap s ti)
      then stop_controls rest
             (Recording
                (s\<lparr>heap := (heap s)(ti := (heap s ti)\<lparr>tRecording := False\<rparr>),
                   RecordControls := filter (\<lambda>c. fst c \<noteq> ti) (RecordControls s)\<rparr>)
                None f False)
      else stop_controls rest s)"

definition RecordControls_Process :: "int \<Rightarrow> world \<Rightarrow> world" where
  "RecordControls_Process t s =
     stop_controls (RecordControls s) (s\<lparr>trace := trace s @ [H_RecordControls_Process t]\<rparr>)"

text \<open>Modelled from the spec: start-instant-recording, \<open>cRecordControls::Start(NULL, Pause)\<close>.
  When the host can record, it creates the instant timer, adds it to the timer list (notified
  as added), marks the list modified, starts the recorder and notifies the recording with its
  file name; otherwise nothing happens.\<close>

definition RecordControls_Start :: "bool \<Rightarrow> world \<Rightarrow> world" where
  "RecordControls_Start Pause s =
     (let s0 = s\<lparr>trace := trace s @ [H_RecordControls_Start Pause]\<rparr>
      in case InstantRecord s0 of
           None \<Rightarrow> s0
         | Some (t, obj, name, file) \<Rightarrow>
             (let s1 = s0\<lparr>heap := (heap s0)(t := obj), Timers := Timers s0 @ [t]\<rparr>;
                  s2 = TimerChange s1 (Some t) tcAdd;
                  s3 = s2\<lparr>TimersModified := True,
                          heap := (heap s2)(t := (heap s2 t)\<lparr>tRecording := True\<rparr>),
                          RecordControls := RecordControls s2 @ [(t, file)]\<rparr>
              in Recording s3 (Some name) file True))"

subsection \<open>cPluginPermashift::StartLiveRecording\<close>

definition StartLiveRecording :: "world \<Rightarrow> int \<Rightarrow> bool \<times> world" where
  "StartLiveRecording s channelNumber =
     (if \<not> g_enablePlugin s then (True, s)
      else case Channels_GetByNumber s channelNumber of
             None \<Rightarrow> (False, esyslog ''Permashift: Did not find channel!'' s)
           | Some channel \<Rightarrow>
               (let s1 = s\<lparr>m_startingRecording := True\<rparr>;
                    s2 = RecordControls_Start True s1;
                    s3 = s2\<lparr>m_startingRecording := False\<rparr>
                in (True, s3)))"

subsection \<open>cPluginPermashift::StopLiveRecording\<close>

text \<open>The loop over \<open>Timers.First()\<close>, \<open>Timers.Next(ti)\<close> that sets \<open>isValid\<close>.\<close>

fun isValid :: "timer_ref list \<Rightarrow> timer_ref \<Rightarrow> bool" where
  "isValid [] liveTimer = False"
| "isValid (ti # rest) liveTimer = (if ti = liveTimer then True else isValid rest liveTimer)"

text \<open>The block that deletes the recording and its file (lines 259 to 277).\<close>

definition delete_recording :: "string option \<Rightarrow> world \<Rightarrow> world" where
  "delete_recording fileName s =
     (case fileName of
        None \<Rightarrow> s
      | Some f \<Rightarrow>
          (case Recordings_GetByName s (Some f) of
             None \<Rightarrow> esyslog ''Permashift: Did not find recording to delete!'' s
           | Some recording \<Rightarrow>
               (case Recording_Delete recording s of
                  (True, s') \<Rightarrow> Recordings_DelByName (Some f) s'
                | (False, s') \<Rightarrow> esyslog ''Permashift: Deleting recording failed!'' s')))"

text \<open>\<open>m_liveTimer\<close> is read once, as \<open>liveTimer\<close>: the notifications delivered while the
  host calls below run do not assign it (\<open>m_stoppingRecording\<close> is set during them).\<close>

definition StopLiveRecording :: "world \<Rightarrow> bool \<times> world" where
  "StopLiveRecording s =
     (if \<not> g_enablePlugin s then (True, s)
      else case m_liveTimer s of
             None \<Rightarrow> (True, s)
           | Some liveTimer \<Rightarrow>
               if \<not> isValid (Timers s) liveTimer
               then (False, (esyslog ''Permashift: Plugin's timer is gone!'' s)\<lparr>m_liveTimer := None\<rparr>)
               else if tPriority (heap s liveTimer) > PausePriority s
                       \<or> tLifetime (heap s liveTimer) > PauseLifetime s
               then (True, s\<lparr>m_liveTimer := None\<rparr>)
               else
                 (let fileName = GetRecordControl_FileName s liveTimer;
                      s1 = (case fileName of
                              None \<Rightarrow> esyslog ''Permashift: Did not have file name of recording to delete!'' s
                            | Some f \<Rightarrow> s);
                      s2 = s1\<lparr>m_stoppingRecording := True\<rparr>;
                      s3 = Timer_Skip liveTimer s2;
                      s4 = RecordControls_Process (now s3) s3;
                      s5 = Timers_Del liveTimer s4;
                      s6 = Timers_SetModified s5;
                      s7 = delete_recording fileName s6;
                      s8 = s7\<lparr>m_stoppingRecording := False\<rparr>;
                      s9 = s8\<lparr>m_liveTimer := None\<rparr>
                  in (True, s9)))"

subsection \<open>cPluginPermashift::ChannelSwitch and cPluginPermashift::MainThreadHook\<close>

text \<open>Seconds to wait in the user prompt before expiring the recording.\<close>

definition EXPIRECANCELPROMPT :: int where
  "EXPIRECANCELPROMPT = 300"

definition ChannelSwitch :: "world \<Rightarrow> int \<Rightarrow> bool \<Rightarrow> world" where
  "ChannelSwitch s channelNumber liveView =
     (if liveView
      then (if channelNumber > 0
            then snd (StartLiveRecording s channelNumber)
            else snd (StopLiveRecording s))
      else s)"

text \<open>\<open>m_mainThreadCounter++ >= 60\<close> compares the value before the increment.\<close>

definition MainThreadHook :: "world \<Rightarrow> world" where
  "MainThreadHook s =
     (let c = m_mainThreadCounter s;
          s1 = s\<lparr>m_mainThreadCounter := c + 1\<rparr>
      in if c \<ge> 60
         then (let s2 =
                     (case m_liveTimer s1 of
                        None \<Rightarrow> s1
                      | Some liveTimer \<Rightarrow>
                          if UserInactive s1
                          then (case Interface_Confirm ''Press key to continue permanent timeshift''
                                       EXPIRECANCELPROMPT True s1 of
                                  (True, s') \<Rightarrow> snd (StopLiveRecording s')
                                | (False, s') \<Rightarrow> s')
                          else s1)
               in s2\<lparr>m_mainThreadCounter := 0\<rparr>)
         else s1)"

subsection \<open>cPluginPermashift::SetupParse\<close>

definition MenuEntry_EnablePlugin :: string where
  "MenuEntry_EnablePlugin = ''EnablePlugin''"

definition MenuEntry_MaxLength :: string where
  "MenuEntry_MaxLength = ''MaxTimeshiftLength''"

text \<open>Modelled from the spec: the C library's \<open>atoi\<close> ("parsed permissively"): white space is
  skipped, one sign is read, then decimal digits as long as there are any; no digit gives 0.
  A value outside the range of \<open>int\<close> is undefined in C and is left unbounded here.\<close>

definition isspace :: "char \<Rightarrow> bool" where
  "isspace c = (c \<in> set [CHR '' '', CHR 0x09, CHR 0x0A, CHR 0x0B, CHR 0x0C, CHR 0x0D])"

definition isdigit :: "char \<Rightarrow> bool" where
  "isdigit c = (48 \<le> (of_char c :: nat) \<and> (of_char c :: nat) \<le> 57)"

fun atoi_digits :: "int \<Rightarrow> string \<Rightarrow> int" where
  "atoi_digits acc [] = acc"
| "atoi_digits acc (c # cs) =
     (if isdigit c then atoi_digits (acc * 10 + (int (of_char c) - 48)) cs else acc)"

definition atoi :: "string \<Rightarrow> int" where
  "atoi str =
     (case dropWhile isspace str of
        [] \<Rightarrow> 0
      | c # cs \<Rightarrow>
          if c = CHR ''-'' then - atoi_digits 0 cs
          else if c = CHR ''+'' then atoi_digits 0 cs
          else atoi_digits 0 (c # cs))"

text \<open>\<open>strcmp(a, b) == 0\<close> is equality of the two strings.\<close>

definition SetupParse :: "world \<Rightarrow> string \<Rightarrow> string \<Rightarrow> bool \<times> world" where
  "SetupParse s Name Value =
     (if Name = MenuEntry_EnablePlugin
      then (True, s\<lparr>g_enablePlugin := (Value = ''1'')\<rparr>)
      else if Name = MenuEntry_MaxLength
      then (True, s\<lparr>g_maxLength := atoi Value\<rparr>)
      else (False, s))"

subsection \<open>The spec's words, for comparison with the code\<close>

text \<open>A start time encoded HHMM is hours * 100 + minutes; the stop time is the start plus
  H * 60 minutes, modulo 1440, encoded again.\<close>

definition spec_minutes_of_hhmm :: "int \<Rightarrow> int" where
  "spec_minutes_of_hhmm S = (S div 100) * 60 + S mod 100"

definition spec_hhmm_of_minutes :: "int \<Rightarrow> int" where
  "spec_hhmm_of_minutes m = (m div 60) * 100 + m mod 60"

definition spec_stop :: "int \<Rightarrow> int \<Rightarrow> int" where
  "spec_stop S H = spec_hhmm_of_minutes ((spec_minutes_of_hhmm S + H * 60) mod 1440)"

definition valid_hhmm :: "int \<Rightarrow> bool" where
  "valid_hhmm S = (0 \<le> S \<and> S div 100 \<le> 23 \<and> S mod 100 \<le> 59)"

text \<open>A malformed integer value, in the spec's words: after white space and one optional
  sign, the value does not go on with a digit.\<close>

definition malformed :: "string \<Rightarrow> bool" where
  "malformed Value =
     (case dropWhile isspace Value of
        [] \<Rightarrow> True
      | c # cs \<Rightarrow>
          if c = CHR ''-'' \<or> c = CHR ''+''
          then (case cs of [] \<Rightarrow> True | d # ds \<Rightarrow> \<not> isdigit d)
          else \<not> isdigit c)"

text \<open>A concrete world for the examples: the plugin enabled with three hours, no claim, an
  empty host with thresholds 10 and 2 and transfer priority -1.\<close>

definition timer0 :: cTimer where
  "timer0 = \<lparr>tPriority = 10, tLifetime = 2, tStart = 2300, tStop = 2330,
             tIsSingleEvent = True, tRecording = False, tStopTime = 0, tSkipped = False\<rparr>"

definition world0 :: world where
  "world0 = \<lparr>g_enablePlugin = True, g_maxLength = 3,
             m_liveTimer = None, m_fileName = None,
             m_startingRecording = False, m_stoppingRecording = False,
             m_mainThreadCounter = 0,
             heap = (\<lambda>a. timer0), Timers = [], TimersModified = False,
             Channels = [1, 2, 3], RecordControls = [],
             Recordings = [], DeletedStorage = [],
             PausePriority = 10, PauseLifetime = 2, TRANSFERPRIORITY = -1,
             now = 1000, UserInactive = False, PromptKey = kNone,
             InstantRecord = None, trace = []\<rparr>"

text \<open>A world in which the plugin has claimed the timer at address 1: the timer is in the
  host's list, records to the file \<open>live.rec\<close>, and has the priority the plugin gave it.\<close>

definition timer_live :: cTimer where
  "timer_live = \<lparr>tPriority = -2, tLifetime = 2, tStart = 2000, tStop = 2300,
                 tIsSingleEvent = True, tRecording = True, tStopTime = 5000, tSkipped = False\<rparr>"

definition world_rec :: world where
  "world_rec = world0\<lparr>m_liveTimer := Some 1, m_fileName := Some ''live.rec'',
                       heap := (\<lambda>a. timer0)(1 := timer_live), Timers := [1],
                       RecordControls := [(1, ''live.rec'')],
                       Recordings := [\<lparr>rFileName = ''live.rec'', rDeleteOk = True\<rparr>]\<rparr>"

text \<open>The same world after something else has raised the priority of the claimed timer
  above the pause priority, and the world in which the claimed timer has left the host's list
  (the object at its address still shows the raised priority).\<close>

definition world_promoted :: world where
  "world_promoted = world_rec\<lparr>heap := (heap world_rec)(1 := timer_live\<lparr>tPriority := 50\<rparr>)\<rparr>"

definition world_gone :: world where
  "world_gone = world_promoted\<lparr>Timers := []\<rparr>"

text \<open>The world in which the claimed timer has run out: it no longer records and its stop
  time has passed. In the second world the host cannot delete the storage of the recording.\<close>

definition world_elapsed :: world where
  "world_elapsed =
     world_rec\<lparr>heap := (heap world_rec)(1 := timer_live\<lparr>tRecording := False, tStopTime := 500\<rparr>),
               RecordControls := []\<rparr>"

definition world_undeletable :: world where
  "world_undeletable = world_elapsed\<lparr>Recordings := [\<lparr>rFileName = ''live.rec'', rDeleteOk = False\<rparr>]\<rparr>"

text \<open>The world in the middle of start-live-recording: the starting flag is set and the host
  has just put the instant timer at address 1 into its list. And the world in which timer 1
  is claimed and the user has been idle.\<close>

definition world_starting :: world where
  "world_starting = world0\<lparr>m_startingRecording := True, Timers := [1]\<rparr>"

definition world_idle :: world where
  "world_idle = world_rec\<lparr>UserInactive := True\<rparr>"

text \<open>The number of confirmation prompts shown so far.\<close>

fun is_Confirm :: "hostcall \<Rightarrow> bool" where
  "is_Confirm (H_Confirm msg Seconds WaitForTimeout) = True"
| "is_Confirm c = False"

definition prompts :: "world \<Rightarrow> nat" where
  "prompts s = length (filter is_Confirm (trace s))"

text \<open>Both transient flags are clear.\<close>

definition flags_clear :: "world \<Rightarrow> bool" where
  "flags_clear s = (\<not> m_startingRecording s \<and> \<not> m_stoppingRecording s)"

section \<open>Facts about the arithmetic of C\<close>

lemma sdiv_nonneg: "0 \<le> a \<Longrightarrow> 0 < b \<Longrightarrow> (a::int) sdiv b = a div b"
  by (simp add: signed_divide_int_def sgn_if)

lemma smod_nonneg: "0 \<le> a \<Longrightarrow> 0 < b \<Longrightarrow> (a::int) smod b = a mod b"
  by (simp add: signed_modulo_int_def sgn_if)

lemma divmod60: "0 \<le> m \<Longrightarrow> m < 60 \<Longrightarrow> (m + k * 60) div 60 = (k::int) \<and> (m + k * 60) mod 60 = m"
  by simp

lemma mod1440_wrap: "1440 \<le> t \<Longrightarrow> t < 2880 \<Longrightarrow> (t::int) mod 1440 = t - 1440"
proof -
  assume a: "1440 \<le> t" "t < 2880"
  then have "(t - 1440) mod 1440 = t - 1440" by (intro mod_pos_pos_trivial) simp_all
  then show ?thesis by simp
qed

lemma newStopTime_code:
  assumes "0 \<le> h" "0 \<le> m" "m < 60" "0 \<le> H"
  shows "newStopTime (h * 100 + m) H =
    (if (h + H) * 100 + m \<ge> 2400 then (h + H) * 100 + m - 2400 else (h + H) * 100 + m)"
proof -
  have S0: "0 \<le> h * 100 + m" using assms by simp
  have m100: "m < 100" using assms by simp
  have a: "(h * 100 + m) div 100 = h" "(h * 100 + m) mod 100 = m"
    using assms m100 by simp_all
  have s1: "(h * 100 + m) sdiv 100 = h" "(h * 100 + m) smod 100 = m"
    using S0 a by (simp_all add: sdiv_nonneg smod_nonneg)
  have t: "h * 60 + m + H * 60 = m + (h + H) * 60" by (simp add: algebra_simps)
  have t0: "0 \<le> m + (h + H) * 60" using assms by simp
  have s2: "(m + (h + H) * 60) sdiv 60 = h + H" "(m + (h + H) * 60) smod 60 = m"
    using t0 divmod60 [OF assms(2,3), of "h + H"] by (simp_all add: sdiv_nonneg smod_nonneg)
  show ?thesis
    unfolding newStopTime_def Let_def s1 t s2 by simp
qed

lemma spec_stop_code:
  assumes "0 \<le> h" "h \<le> 23" "0 \<le> m" "m < 60" "1 \<le> H" "H \<le> 23"
  shows "spec_stop (h * 100 + m) H =
    (if h + H \<ge> 24 then (h + H - 24) * 100 + m else (h + H) * 100 + m)"
proof -
  have m100: "m < 100" using assms by simp
  have a: "(h * 100 + m) div 100 = h" "(h * 100 + m) mod 100 = m"
    using assms m100 by simp_all
  have t: "h * 60 + m + H * 60 = m + (h + H) * 60" by (simp add: algebra_simps)
  show ?thesis
  proof (cases "h + H \<ge> 24")
    case True
    have "1440 \<le> m + (h + H) * 60" "m + (h + H) * 60 < 2880" using True assms by simp_all
    then have w: "(m + (h + H) * 60) mod 1440 = m + (h + H) * 60 - 1440" by (rule mod1440_wrap)
    have e: "m + (h + H) * 60 - 1440 = m + (h + H - 24) * 60" by (simp add: algebra_simps)
    show ?thesis
      unfolding spec_stop_def spec_minutes_of_hhmm_def spec_hhmm_of_minutes_def a t w e
      using divmod60 [OF assms(3,4), of "h + H - 24"] True by simp
  next
    case False
    have "0 \<le> m + (h + H) * 60" "m + (h + H) * 60 < 1440" using False assms by simp_all
    then have w: "(m + (h + H) * 60) mod 1440 = m + (h + H) * 60" by (rule mod_pos_pos_trivial)
    show ?thesis
      unfolding spec_stop_def spec_minutes_of_hhmm_def spec_hhmm_of_minutes_def a t w
      using divmod60 [OF assms(3,4), of "h + H"] False by simp
  qed
qed

lemma newStopTime_spec:
  assumes "valid_hhmm S" "1 \<le> H" "H \<le> 23"
  shows "newStopTime S H = spec_stop S H"
proof -
  define h where "h = S div 100"
  define m where "m = S mod 100"
  have S: "S = h * 100 + m" by (simp add: h_def m_def)
  have b: "0 \<le> h" "h \<le> 23" "0 \<le> m" "m < 60"
    using assms(1) by (simp_all add: valid_hhmm_def h_def m_def pos_imp_zdiv_nonneg_iff)
  have H0: "0 \<le> H" using assms by simp
  show ?thesis
    unfolding S using newStopTime_code [OF b(1) b(3) b(4) H0] spec_stop_code [OF b assms(2,3)] b
    by auto
qed


lemma valid_hhmm_parts:
  assumes "0 \<le> k" "k \<le> 23" "0 \<le> m" "m < 60"
  shows "valid_hhmm (k * 100 + m)"
proof -
  have m100: "m < 100" using assms by simp
  have "(k * 100 + m) div 100 = k" "(k * 100 + m) mod 100 = m"
    using assms m100 by simp_all
  then show ?thesis using assms by (simp add: valid_hhmm_def)
qed

lemma spec_stop_valid:
  assumes "valid_hhmm S" "1 \<le> H" "H \<le> 23"
  shows "valid_hhmm (spec_stop S H)"
proof -
  define h where "h = S div 100"
  define m where "m = S mod 100"
  have S: "S = h * 100 + m" by (simp add: h_def m_def)
  have b: "0 \<le> h" "h \<le> 23" "0 \<le> m" "m < 60"
    using assms(1) by (simp_all add: valid_hhmm_def h_def m_def pos_imp_zdiv_nonneg_iff)
  have c: "spec_stop S H =
      (if h + H \<ge> 24 then (h + H - 24) * 100 + m else (h + H) * 100 + m)"
    unfolding S by (rule spec_stop_code [OF b assms(2,3)])
  show ?thesis
  proof (cases "h + H \<ge> 24")
    case True
    then have "valid_hhmm ((h + H - 24) * 100 + m)"
      using b assms by (intro valid_hhmm_parts) simp_all
    then show ?thesis using c True by simp
  next
    case False
    then have "valid_hhmm ((h + H) * 100 + m)"
      using b assms by (intro valid_hhmm_parts) simp_all
    then show ?thesis using c False by simp
  qed
qed

lemma TimerChange_add_starting:
  "m_startingRecording s \<Longrightarrow>
   TimerChange s (Some t) tcAdd =
     Timer_SetStop t (newStopTime (tStart (heap s t)) (g_maxLength s))
       (Timer_SetPriority t (TRANSFERPRIORITY s - 1) (s\<lparr>m_liveTimer := Some t\<rparr>))"
  by (simp add: TimerChange_def Let_def Timer_SetPriority_def)

section \<open>C1: the stop time of the claimed timer\<close>

text \<open>C1. When a timer is added while the starting flag is set, the stop time written to it
  is the start time S plus H * 60 minutes modulo 1440, encoded HHMM again, for every valid
  start time S (hours 0 to 23, minutes 0 to 59) and every hour count H from 1 to 23. The one
  subtraction of 2400 is enough on these inputs: the result is a valid time of day again.
  The timer is claimed by the same notification.\<close>

theorem C1_stop_time:
  assumes "m_startingRecording s"
    and "valid_hhmm (tStart (heap s t))"
    and "1 \<le> g_maxLength s" and "g_maxLength s \<le> 23"
  shows "tStop (heap (TimerChange s (Some t) tcAdd) t)
           = spec_stop (tStart (heap s t)) (g_maxLength s)
         \<and> valid_hhmm (tStop (heap (TimerChange s (Some t) tcAdd) t))
         \<and> m_liveTimer (TimerChange s (Some t) tcAdd) = Some t"
proof -
  have a: "tStop (heap (TimerChange s (Some t) tcAdd) t)
          = newStopTime (tStart (heap s t)) (g_maxLength s)"
    using assms(1) by (simp add: TimerChange_add_starting Timer_SetStop_def)
  have b: "m_liveTimer (TimerChange s (Some t) tcAdd) = Some t"
    using assms(1) by (simp add: TimerChange_add_starting Timer_SetStop_def Timer_SetPriority_def)
  show ?thesis
    using a b newStopTime_spec [OF assms(2,3,4)] spec_stop_valid [OF assms(2,3,4)] by simp
qed

text \<open>The example of the spec: 2300 plus three hours is 0200.\<close>

theorem C1_stop_time_witness:
  "m_startingRecording world_starting
   \<and> valid_hhmm (tStart (heap world_starting 1))
   \<and> 1 \<le> g_maxLength world_starting \<and> g_maxLength world_starting \<le> 23
   \<and> tStart (heap world_starting 1) = 2300 \<and> g_maxLength world_starting = 3
   \<and> tStop (heap (TimerChange world_starting (Some 1) tcAdd) 1) = 200
   \<and> m_liveTimer (TimerChange world_starting (Some 1) tcAdd) = Some 1"
proof -
  have h: "m_startingRecording world_starting" "valid_hhmm (tStart (heap world_starting 1))"
    "1 \<le> g_maxLength world_starting" "g_maxLength world_starting \<le> 23"
    "tStart (heap world_starting 1) = 2300" "g_maxLength world_starting = 3"
    by (simp_all add: world_starting_def world0_def timer0_def valid_hhmm_def)
  have e: "spec_stop 2300 3 = 200"
    by (simp add: spec_stop_def spec_minutes_of_hhmm_def spec_hhmm_of_minutes_def)
  show ?thesis
    using C1_stop_time [OF h(1,2,3,4)] h e by simp
qed

section \<open>Facts about the host operations\<close>

lemma isValid_set: "isValid ts p = (p \<in> set ts)"
  by (induction ts) auto

lemma find_None_set: "List.find (\<lambda>c. c = n) xs = None \<longleftrightarrow> n \<notin> set xs"
  by (induction xs) auto

lemma StopLiveRecording_disabled: "\<not> g_enablePlugin s \<Longrightarrow> StopLiveRecording s = (True, s)"
  by (simp add: StopLiveRecording_def)

lemma StopLiveRecording_idle: "m_liveTimer s = None \<Longrightarrow> StopLiveRecording s = (True, s)"
  by (simp add: StopLiveRecording_def)

lemma StopLiveRecording_gone:
  "g_enablePlugin s \<Longrightarrow> m_liveTimer s = Some t \<Longrightarrow> t \<notin> set (Timers s) \<Longrightarrow>
   StopLiveRecording s =
     (False, s\<lparr>trace := trace s @ [H_esyslog ''Permashift: Plugin's timer is gone!''],
               m_liveTimer := None\<rparr>)"
  by (simp add: StopLiveRecording_def isValid_set esyslog_def)

lemma StopLiveRecording_promoted:
  "g_enablePlugin s \<Longrightarrow> m_liveTimer s = Some t \<Longrightarrow> t \<in> set (Timers s) \<Longrightarrow>
   tPriority (heap s t) > PausePriority s \<or> tLifetime (heap s t) > PauseLifetime s \<Longrightarrow>
   StopLiveRecording s = (True, s\<lparr>m_liveTimer := None\<rparr>)"
  by (simp add: StopLiveRecording_def isValid_set)

lemmas host_defs =
  esyslog_def Channels_GetByNumber_def GetRecordControl_FileName_def Recordings_GetByName_def
  Recording_Delete_def Recordings_DelByName_def Timer_SetPriority_def Timer_SetStop_def
  Timer_Skip_def Timers_SetModified_def Interface_Confirm_def Timers_Del_def
  RecordControls_Process_def RecordControls_Start_def delete_recording_def

lemmas example_defs = world0_def world_rec_def timer0_def timer_live_def

lemma StopLiveRecording_world_rec:
  "StopLiveRecording world_rec =
     (True, world_rec\<lparr>m_liveTimer := None, Timers := [], TimersModified := True,
          heap := (heap world_rec)(1 := timer_live\<lparr>tSkipped := True, tRecording := False\<rparr>),
          RecordControls := [], Recordings := [], DeletedStorage := [''live.rec''],
          trace := [H_Skip 1, H_RecordControls_Process 1000, H_Timers_Del 1,
                    H_Timers_SetModified, H_Recording_Delete ''live.rec'',
                    H_Recordings_DelByName (Some ''live.rec'')]\<rparr>)"
  by (simp add: StopLiveRecording_def TimerChange_def Recording_def host_defs example_defs Let_def)

section \<open>C2: channel switches\<close>

text \<open>C2 as stated fails: a channel switch that is not a live view does nothing at all. In the
  world where timer 1 is claimed and recording, such a switch leaves the claim and an empty
  trace, while stop-live-recording would have released the claim and deleted the timer.\<close>

theorem C2_not_live_view_counterexample:
  "ChannelSwitch world_rec 5 False = world_rec
   \<and> m_liveTimer (ChannelSwitch world_rec 5 False) = Some 1
   \<and> Timers (ChannelSwitch world_rec 5 False) = [1]
   \<and> m_liveTimer (snd (StopLiveRecording world_rec)) = None
   \<and> Timers (snd (StopLiveRecording world_rec)) = []
   \<and> ChannelSwitch world_rec 5 False \<noteq> snd (StopLiveRecording world_rec)"
proof -
  have a: "ChannelSwitch world_rec 5 False = world_rec"
    by (simp add: ChannelSwitch_def)
  have b: "m_liveTimer world_rec = Some 1" "Timers world_rec = [1]"
    by (simp_all add: example_defs)
  have c: "m_liveTimer (snd (StopLiveRecording world_rec)) = None"
    "Timers (snd (StopLiveRecording world_rec)) = []"
    by (simp_all add: StopLiveRecording_world_rec)
  have "world_rec \<noteq> snd (StopLiveRecording world_rec)"
    using b(1) c(1) by auto
  then show ?thesis using a b c by simp
qed

text \<open>C2 amended: a live-view channel switch with a channel number that is not positive
  does exactly what stop-live-recording does; a switch that is not a live view changes
  nothing.\<close>

theorem C2_channel_switch:
  "(liveView \<and> channelNumber \<le> 0 \<longrightarrow>
      ChannelSwitch s channelNumber liveView = snd (StopLiveRecording s))
   \<and> (\<not> liveView \<longrightarrow> ChannelSwitch s channelNumber liveView = s)"
  by (simp add: ChannelSwitch_def)

theorem C2_channel_switch_witness:
  "ChannelSwitch world_rec 0 True = snd (StopLiveRecording world_rec)
   \<and> m_liveTimer (ChannelSwitch world_rec 0 True) = None
   \<and> Recordings (ChannelSwitch world_rec 0 True) = []
   \<and> ChannelSwitch world_rec 0 False = world_rec"
  using C2_channel_switch [of True 0 world_rec] C2_channel_switch [of False 0 world_rec]
  by (simp add: StopLiveRecording_world_rec)

section \<open>C4: a promoted timer is released, not deleted\<close>

text \<open>C4 as stated fails in two ways. With the plugin disabled, stop-live-recording returns
  before it looks at the claim, which stays. With the claimed timer gone from the host's list,
  the validity check comes first: the call logs an error and fails.\<close>

theorem C4_promoted_counterexample:
  "m_liveTimer (world_promoted\<lparr>g_enablePlugin := False\<rparr>) = Some 1
   \<and> tPriority (heap (world_promoted\<lparr>g_enablePlugin := False\<rparr>) 1)
        > PausePriority (world_promoted\<lparr>g_enablePlugin := False\<rparr>)
   \<and> m_liveTimer (snd (StopLiveRecording (world_promoted\<lparr>g_enablePlugin := False\<rparr>))) = Some 1
   \<and> m_liveTimer world_gone = Some 1
   \<and> tPriority (heap world_gone 1) > PausePriority world_gone
   \<and> fst (StopLiveRecording world_gone) = False
   \<and> trace (snd (StopLiveRecording world_gone)) \<noteq> trace world_gone"
  by (simp add: StopLiveRecording_def esyslog_def world_promoted_def world_gone_def example_defs)

text \<open>C4 amended: while the plugin is enabled, for every call to stop-live-recording with a
  claimed timer that is still in the host's timer list and whose priority exceeds the pause
  priority or whose lifetime exceeds the pause lifetime, the claim is cleared, the call returns
  success, and nothing else changes: not the timer, the timer list, the recordings, the trace
  of host calls or any other state.\<close>

theorem C4_promoted_released:
  assumes "g_enablePlugin s"
    and "m_liveTimer s = Some t"
    and "t \<in> set (Timers s)"
    and "tPriority (heap s t) > PausePriority s \<or> tLifetime (heap s t) > PauseLifetime s"
  shows "StopLiveRecording s = (True, s\<lparr>m_liveTimer := None\<rparr>)"
  using assms by (rule StopLiveRecording_promoted)

theorem C4_promoted_released_witness:
  "g_enablePlugin world_promoted \<and> m_liveTimer world_promoted = Some 1
   \<and> 1 \<in> set (Timers world_promoted)
   \<and> tPriority (heap world_promoted 1) > PausePriority world_promoted
   \<and> StopLiveRecording world_promoted = (True, world_promoted\<lparr>m_liveTimer := None\<rparr>)
   \<and> Timers (snd (StopLiveRecording world_promoted)) = [1]
   \<and> trace (snd (StopLiveRecording world_promoted)) = []"
proof -
  have h: "g_enablePlugin world_promoted" "m_liveTimer world_promoted = Some 1"
    "1 \<in> set (Timers world_promoted)"
    "tPriority (heap world_promoted 1) > PausePriority world_promoted"
    by (simp_all add: world_promoted_def example_defs)
  have "StopLiveRecording world_promoted = (True, world_promoted\<lparr>m_liveTimer := None\<rparr>)"
    using C4_promoted_released [of world_promoted 1] h by simp
  moreover have "Timers world_promoted = [1]" "trace world_promoted = []"
    by (simp_all add: world_promoted_def example_defs)
  ultimately show ?thesis using h by simp
qed

section \<open>C6: the claimed timer has vanished from the host's list\<close>

text \<open>C6 as stated fails when the plugin is disabled: the call returns success at once,
  nothing is logged and the claim stays.\<close>

theorem C6_gone_counterexample:
  "m_liveTimer (world_gone\<lparr>g_enablePlugin := False\<rparr>) = Some 1
   \<and> 1 \<notin> set (Timers (world_gone\<lparr>g_enablePlugin := False\<rparr>))
   \<and> fst (StopLiveRecording (world_gone\<lparr>g_enablePlugin := False\<rparr>)) = True
   \<and> trace (snd (StopLiveRecording (world_gone\<lparr>g_enablePlugin := False\<rparr>))) = []
   \<and> m_liveTimer (snd (StopLiveRecording (world_gone\<lparr>g_enablePlugin := False\<rparr>))) = Some 1"
  by (simp add: StopLiveRecording_def world_promoted_def world_gone_def example_defs)

text \<open>C6 amended: while the plugin is enabled, for every call to stop-live-recording whose
  claimed timer is no longer in the host's timer list, the error is logged, the claim is
  cleared and the call returns failure; no other state changes.\<close>

theorem C6_gone_recovery:
  assumes "g_enablePlugin s"
    and "m_liveTimer s = Some t"
    and "t \<notin> set (Timers s)"
  shows "StopLiveRecording s =
           (False, s\<lparr>trace := trace s @ [H_esyslog ''Permashift: Plugin's timer is gone!''],
                     m_liveTimer := None\<rparr>)"
  using assms by (rule StopLiveRecording_gone)

theorem C6_gone_recovery_witness:
  "g_enablePlugin world_gone \<and> m_liveTimer world_gone = Some 1 \<and> 1 \<notin> set (Timers world_gone)
   \<and> StopLiveRecording world_gone =
        (False, world_gone\<lparr>trace := [H_esyslog ''Permashift: Plugin's timer is gone!''],
                           m_liveTimer := None\<rparr>)"
proof -
  have h: "g_enablePlugin world_gone" "m_liveTimer world_gone = Some 1"
    "1 \<notin> set (Timers world_gone)" "trace world_gone = []"
    by (simp_all add: world_gone_def world_promoted_def example_defs)
  show ?thesis
    using C6_gone_recovery [of world_gone 1] h by simp
qed

section \<open>C8: starting while disabled, and an unknown channel\<close>

text \<open>C8. With the plugin disabled, a channel switch to a positive channel number changes
  nothing (no call into the host, no state change), and the start operation reports success.
  With the plugin enabled and the channel number not in the channel directory, the error is
  logged, failure is returned and nothing else is done.\<close>

theorem C8_start_guards:
  "(\<not> g_enablePlugin s \<and> channelNumber > 0 \<longrightarrow>
      ChannelSwitch s channelNumber liveView = s
      \<and> StartLiveRecording s channelNumber = (True, s))
   \<and> (g_enablePlugin s \<and> channelNumber \<notin> set (Channels s) \<longrightarrow>
      StartLiveRecording s channelNumber =
        (False, s\<lparr>trace := trace s @ [H_esyslog ''Permashift: Did not find channel!'']\<rparr>))"
proof -
  have "List.find (\<lambda>c. c = channelNumber) (Channels s) = None"
    if "channelNumber \<notin> set (Channels s)"
    using that by (simp add: find_None_set)
  then show ?thesis
    by (simp add: ChannelSwitch_def StartLiveRecording_def Channels_GetByNumber_def esyslog_def)
qed

theorem C8_start_guards_witness:
  "\<not> g_enablePlugin (world0\<lparr>g_enablePlugin := False\<rparr>) \<and> (5::int) > 0
   \<and> ChannelSwitch (world0\<lparr>g_enablePlugin := False\<rparr>) 5 True = world0\<lparr>g_enablePlugin := False\<rparr>
   \<and> StartLiveRecording (world0\<lparr>g_enablePlugin := False\<rparr>) 5
        = (True, world0\<lparr>g_enablePlugin := False\<rparr>)
   \<and> g_enablePlugin world0 \<and> 9 \<notin> set (Channels world0)
   \<and> StartLiveRecording world0 9
        = (False, world0\<lparr>trace := [H_esyslog ''Permashift: Did not find channel!'']\<rparr>)"
proof -
  have h: "g_enablePlugin world0" "9 \<notin> set (Channels world0)" "trace world0 = []"
    by (simp_all add: world0_def)
  show ?thesis
    using C8_start_guards [of "world0\<lparr>g_enablePlugin := False\<rparr>" 5 True]
      C8_start_guards [of world0 9 True] h
    by simp
qed

section \<open>What the notifications and the host calls leave alone\<close>

lemma TimerChange_flags:
  "m_startingRecording (TimerChange s T c) = m_startingRecording s"
  "m_stoppingRecording (TimerChange s T c) = m_stoppingRecording s"
  by (simp_all add: TimerChange_def Let_def host_defs split: option.splits prod.splits bool.splits)

lemma Recording_flags:
  "m_startingRecording (Recording s N F b) = m_startingRecording s"
  "m_stoppingRecording (Recording s N F b) = m_stoppingRecording s"
  by (simp_all add: Recording_def)

lemma TimerChange_del_stopping:
  "m_stoppingRecording s \<Longrightarrow> TimerChange s (Some t) tcDel = s"
  by (simp add: TimerChange_def)

lemma stop_controls_frame:
  "m_liveTimer (stop_controls cs s) = m_liveTimer s"
  "m_fileName (stop_controls cs s) = m_fileName s"
  "m_startingRecording (stop_controls cs s) = m_startingRecording s"
  "m_stoppingRecording (stop_controls cs s) = m_stoppingRecording s"
  "Timers (stop_controls cs s) = Timers s"
  "TimersModified (stop_controls cs s) = TimersModified s"
  "Recordings (stop_controls cs s) = Recordings s"
  "DeletedStorage (stop_controls cs s) = DeletedStorage s"
  "trace (stop_controls cs s) = trace s"
  by (induction cs s rule: stop_controls.induct; simp add: Recording_def)+

lemma stop_controls_skipped:
  "tSkipped (heap (stop_controls cs s) a) = tSkipped (heap s a)"
  by (induction cs s rule: stop_controls.induct) (simp_all add: Recording_def)

section \<open>The full path of stop-live-recording\<close>

text \<open>The host calls of lines 249 to 256, made while the stopping flag is set: the timer is
  marked, the record controls are processed, the timer leaves the list (the notification of
  its deletion is ignored by the plugin), and the list is marked modified.\<close>

lemma stop_calls:
  fixes s0 :: world and t :: timer_ref and n :: int
  defines "p \<equiv> Timers_SetModified (Timers_Del t (RecordControls_Process n (Timer_Skip t s0)))"
  assumes st: "m_stoppingRecording s0"
  shows "Recordings p = Recordings s0"
    and "DeletedStorage p = DeletedStorage s0"
    and "Timers p = removeAll t (Timers s0)"
    and "TimersModified p"
    and "trace p = trace s0 @ [H_Skip t, H_RecordControls_Process n, H_Timers_Del t,
                              H_Timers_SetModified]"
    and "m_liveTimer p = m_liveTimer s0"
    and "m_startingRecording p = m_startingRecording s0"
    and "m_stoppingRecording p"
    and "tSkipped (heap p t)"
proof -
  define a where "a = RecordControls_Process n (Timer_Skip t s0)"
  have a: "Recordings a = Recordings s0" "DeletedStorage a = DeletedStorage s0"
    "Timers a = Timers s0" "trace a = trace s0 @ [H_Skip t, H_RecordControls_Process n]"
    "m_liveTimer a = m_liveTimer s0" "m_startingRecording a = m_startingRecording s0"
    "m_stoppingRecording a" "tSkipped (heap a t)"
    using st
    by (simp_all add: a_def RecordControls_Process_def Timer_Skip_def stop_controls_frame
          stop_controls_skipped)
  have d: "Timers_Del t a = a\<lparr>trace := trace a @ [H_Timers_Del t],
                                Timers := removeAll t (Timers a)\<rparr>"
    using a(7) by (simp add: Timers_Del_def TimerChange_del_stopping Let_def)
  have p: "p = Timers_SetModified (Timers_Del t a)"
    by (simp add: p_def a_def)
  show "Recordings p = Recordings s0" "DeletedStorage p = DeletedStorage s0"
    "Timers p = removeAll t (Timers s0)" "TimersModified p"
    "trace p = trace s0 @ [H_Skip t, H_RecordControls_Process n, H_Timers_Del t,
                          H_Timers_SetModified]"
    "m_liveTimer p = m_liveTimer s0" "m_startingRecording p = m_startingRecording s0"
    "m_stoppingRecording p" "tSkipped (heap p t)"
    using a by (simp_all add: p d Timers_SetModified_def)
qed

text \<open>The four outcomes of the block that deletes the recording.\<close>

lemma find_Some_name:
  "List.find (\<lambda>r. rFileName r = f) rs = Some r \<Longrightarrow> rFileName r = f"
  by (induction rs) (auto split: if_splits)

lemma delete_recording_cases:
  "delete_recording None s = s"
  "Recordings_GetByName s (Some f) = None \<Longrightarrow>
     delete_recording (Some f) s =
       s\<lparr>trace := trace s @ [H_esyslog ''Permashift: Did not find recording to delete!'']\<rparr>"
  "Recordings_GetByName s (Some f) = Some r \<Longrightarrow> rDeleteOk r \<Longrightarrow>
     delete_recording (Some f) s =
       s\<lparr>trace := trace s @ [H_Recording_Delete f, H_Recordings_DelByName (Some f)],
         DeletedStorage := DeletedStorage s @ [f],
         Recordings := remove_first (\<lambda>x. rFileName x = f) (Recordings s)\<rparr>"
  "Recordings_GetByName s (Some f) = Some r \<Longrightarrow> \<not> rDeleteOk r \<Longrightarrow>
     delete_recording (Some f) s =
       s\<lparr>trace := trace s @ [H_Recording_Delete f,
                              H_esyslog ''Permashift: Deleting recording failed!'']\<rparr>"
proof -
  show "delete_recording None s = s"
    by (simp add: delete_recording_def)
  show "delete_recording (Some f) s =
       s\<lparr>trace := trace s @ [H_esyslog ''Permashift: Did not find recording to delete!'']\<rparr>"
    if "Recordings_GetByName s (Some f) = None"
    using that by (simp add: delete_recording_def esyslog_def)
  show "delete_recording (Some f) s =
       s\<lparr>trace := trace s @ [H_Recording_Delete f, H_Recordings_DelByName (Some f)],
         DeletedStorage := DeletedStorage s @ [f],
         Recordings := remove_first (\<lambda>x. rFileName x = f) (Recordings s)\<rparr>"
    if "Recordings_GetByName s (Some f) = Some r" "rDeleteOk r"
  proof -
    have "List.find (\<lambda>r. rFileName r = f) (Recordings s) = Some r"
      using that(1) by (simp add: Recordings_GetByName_def)
    then have n: "rFileName r = f"
      by (rule find_Some_name)
    have d: "Recording_Delete r s =
        (True, s\<lparr>trace := trace s @ [H_Recording_Delete f],
                  DeletedStorage := DeletedStorage s @ [f]\<rparr>)"
      by (simp add: Recording_Delete_def Let_def n that(2))
    have "delete_recording (Some f) s = Recordings_DelByName (Some f)
        (s\<lparr>trace := trace s @ [H_Recording_Delete f],
           DeletedStorage := DeletedStorage s @ [f]\<rparr>)"
      unfolding delete_recording_def
      by (simp only: that(1) d option.case prod.case bool.case if_True)
    then show ?thesis
      by (simp add: Recordings_DelByName_def Let_def)
  qed
  show "delete_recording (Some f) s =
       s\<lparr>trace := trace s @ [H_Recording_Delete f,
                              H_esyslog ''Permashift: Deleting recording failed!'']\<rparr>"
    if "Recordings_GetByName s (Some f) = Some r" "\<not> rDeleteOk r"
  proof -
    have "List.find (\<lambda>r. rFileName r = f) (Recordings s) = Some r"
      using that(1) by (simp add: Recordings_GetByName_def)
    then have n: "rFileName r = f"
      by (rule find_Some_name)
    have d: "Recording_Delete r s = (False, s\<lparr>trace := trace s @ [H_Recording_Delete f]\<rparr>)"
      by (simp add: Recording_Delete_def Let_def n that(2))
    have "delete_recording (Some f) s = esyslog ''Permashift: Deleting recording failed!''
        (s\<lparr>trace := trace s @ [H_Recording_Delete f]\<rparr>)"
      unfolding delete_recording_def
      by (simp only: that(1) d option.case prod.case bool.case if_False)
    then show ?thesis
      by (simp add: esyslog_def)
  qed
qed

lemma GetByName_cong:
  "Recordings s' = Recordings s \<Longrightarrow> Recordings_GetByName s' n = Recordings_GetByName s n"
  by (cases n) (simp_all add: Recordings_GetByName_def)

lemma StopLiveRecording_full:
  assumes "g_enablePlugin s" and "m_liveTimer s = Some t" and "t \<in> set (Timers s)"
    and "tPriority (heap s t) \<le> PausePriority s" and "tLifetime (heap s t) \<le> PauseLifetime s"
  shows "StopLiveRecording s =
    (True,
     (delete_recording (GetRecordControl_FileName s t)
        (Timers_SetModified (Timers_Del t (RecordControls_Process (now s)
           (Timer_Skip t
              ((case GetRecordControl_FileName s t of
                  None \<Rightarrow> esyslog ''Permashift: Did not have file name of recording to delete!'' s
                | Some f \<Rightarrow> s)\<lparr>m_stoppingRecording := True\<rparr>))))))
       \<lparr>m_stoppingRecording := False, m_liveTimer := None\<rparr>)"
proof -
  have n: "now (Timer_Skip t (x\<lparr>m_stoppingRecording := True\<rparr>)) = now x" for x
    by (simp add: Timer_Skip_def)
  have e: "now (esyslog m s) = now s" for m
    by (simp add: esyslog_def)
  show ?thesis
    using assms
    by (simp add: StopLiveRecording_def isValid_set Let_def n e split: option.splits)
qed

lemma StopLiveRecording_outcome:
  assumes en: "g_enablePlugin s" and lt: "m_liveTimer s = Some t" and v: "t \<in> set (Timers s)"
    and pr: "tPriority (heap s t) \<le> PausePriority s"
    and lf: "tLifetime (heap s t) \<le> PauseLifetime s"
  obtains p where
    "StopLiveRecording s =
       (True, (delete_recording (GetRecordControl_FileName s t) p)
                \<lparr>m_stoppingRecording := False, m_liveTimer := None\<rparr>)"
    and "Recordings p = Recordings s" and "DeletedStorage p = DeletedStorage s"
    and "Timers p = removeAll t (Timers s)" and "TimersModified p"
    and "tSkipped (heap p t)" and "m_startingRecording p = m_startingRecording s"
    and "trace p = trace s
           @ (case GetRecordControl_FileName s t of
                None \<Rightarrow> [H_esyslog ''Permashift: Did not have file name of recording to delete!'']
              | Some f \<Rightarrow> [])
           @ [H_Skip t, H_RecordControls_Process (now s), H_Timers_Del t, H_Timers_SetModified]"
proof -
  define s0 where "s0 =
    (case GetRecordControl_FileName s t of
       None \<Rightarrow> esyslog ''Permashift: Did not have file name of recording to delete!'' s
     | Some f \<Rightarrow> s)\<lparr>m_stoppingRecording := True\<rparr>"
  define p where
    "p = Timers_SetModified (Timers_Del t (RecordControls_Process (now s) (Timer_Skip t s0)))"
  have s0: "m_stoppingRecording s0" "Recordings s0 = Recordings s"
    "DeletedStorage s0 = DeletedStorage s" "Timers s0 = Timers s"
    "m_startingRecording s0 = m_startingRecording s"
    "trace s0 = trace s
       @ (case GetRecordControl_FileName s t of
            None \<Rightarrow> [H_esyslog ''Permashift: Did not have file name of recording to delete!'']
          | Some f \<Rightarrow> [])"
    by (simp_all add: s0_def esyslog_def split: option.splits)
  note c = stop_calls [OF s0(1), of t "now s", folded p_def]
  show thesis
  proof (rule that [of p])
    show "StopLiveRecording s =
       (True, (delete_recording (GetRecordControl_FileName s t) p)
                \<lparr>m_stoppingRecording := False, m_liveTimer := None\<rparr>)"
      unfolding p_def s0_def by (rule StopLiveRecording_full [OF en lt v pr lf])
    show "Recordings p = Recordings s" using c(1) s0(2) by simp
    show "DeletedStorage p = DeletedStorage s" using c(2) s0(3) by simp
    show "Timers p = removeAll t (Timers s)" using c(3) s0(4) by simp
    show "TimersModified p" by (rule c(4))
    show "tSkipped (heap p t)" by (rule c(9))
    show "m_startingRecording p = m_startingRecording s" using c(7) s0(5) by simp
    show "trace p = trace s
           @ (case GetRecordControl_FileName s t of
                None \<Rightarrow> [H_esyslog ''Permashift: Did not have file name of recording to delete!'']
              | Some f \<Rightarrow> [])
           @ [H_Skip t, H_RecordControls_Process (now s), H_Timers_Del t, H_Timers_SetModified]"
      using c(5) s0(6) by simp
  qed
qed

lemma delete_recording_frame:
  "Timers (delete_recording fn s) = Timers s"
  "TimersModified (delete_recording fn s) = TimersModified s"
  "heap (delete_recording fn s) = heap s"
  "m_startingRecording (delete_recording fn s) = m_startingRecording s"
  by (simp_all add: delete_recording_def Recording_Delete_def Recordings_DelByName_def
        esyslog_def Let_def split: option.splits)

section \<open>C7: stop-live-recording\<close>

text \<open>C7. Stop-live-recording returns success and changes nothing when the plugin is disabled
  or no timer is claimed. With a claimed timer that is in the host's list and not promoted, it
  marks the timer to stop, deletes it from the host's timer list (marking the list modified),
  and deletes the storage and then the index entry of the recording under the file name of the
  timer's record control. The claim is cleared and the call returns success in every case:
  also when there is no file name, when the recording is not found and when deleting its
  storage fails, where only an error is logged and the index keeps its entries.\<close>

theorem C7_stop_live_recording:
  assumes "StopLiveRecording s = (ok, s')"
  shows
   "(\<not> g_enablePlugin s \<or> m_liveTimer s = None \<longrightarrow> ok \<and> s' = s)
    \<and> (g_enablePlugin s \<and> m_liveTimer s = Some t \<and> t \<in> set (Timers s)
        \<and> tPriority (heap s t) \<le> PausePriority s \<and> tLifetime (heap s t) \<le> PauseLifetime s
        \<longrightarrow>
        ok \<and> m_liveTimer s' = None \<and> tSkipped (heap s' t)
        \<and> t \<notin> set (Timers s') \<and> TimersModified s'
        \<and> (case GetRecordControl_FileName s t of
              None \<Rightarrow>
                trace s' = trace s
                  @ [H_esyslog ''Permashift: Did not have file name of recording to delete!'',
                     H_Skip t, H_RecordControls_Process (now s), H_Timers_Del t,
                     H_Timers_SetModified]
                \<and> Recordings s' = Recordings s \<and> DeletedStorage s' = DeletedStorage s
            | Some f \<Rightarrow>
                (case Recordings_GetByName s (Some f) of
                   None \<Rightarrow>
                     trace s' = trace s
                       @ [H_Skip t, H_RecordControls_Process (now s), H_Timers_Del t,
                          H_Timers_SetModified,
                          H_esyslog ''Permashift: Did not find recording to delete!'']
                     \<and> Recordings s' = Recordings s \<and> DeletedStorage s' = DeletedStorage s
                 | Some r \<Rightarrow>
                     if rDeleteOk r
                     then trace s' = trace s
                            @ [H_Skip t, H_RecordControls_Process (now s), H_Timers_Del t,
                               H_Timers_SetModified, H_Recording_Delete f,
                               H_Recordings_DelByName (Some f)]
                          \<and> Recordings s' = remove_first (\<lambda>x. rFileName x = f) (Recordings s)
                          \<and> DeletedStorage s' = DeletedStorage s @ [f]
                     else trace s' = trace s
                            @ [H_Skip t, H_RecordControls_Process (now s), H_Timers_Del t,
                               H_Timers_SetModified, H_Recording_Delete f,
                               H_esyslog ''Permashift: Deleting recording failed!'']
                          \<and> Recordings s' = Recordings s
                          \<and> DeletedStorage s' = DeletedStorage s)))"
proof (intro conjI impI)
  assume "\<not> g_enablePlugin s \<or> m_liveTimer s = None"
  then have "StopLiveRecording s = (True, s)"
    using StopLiveRecording_disabled StopLiveRecording_idle by blast
  then show "ok" and "s' = s" using assms by simp_all
next
  assume h: "g_enablePlugin s \<and> m_liveTimer s = Some t \<and> t \<in> set (Timers s)
        \<and> tPriority (heap s t) \<le> PausePriority s \<and> tLifetime (heap s t) \<le> PauseLifetime s"
  then obtain p where p:
    "StopLiveRecording s =
       (True, (delete_recording (GetRecordControl_FileName s t) p)
                \<lparr>m_stoppingRecording := False, m_liveTimer := None\<rparr>)"
    "Recordings p = Recordings s" "DeletedStorage p = DeletedStorage s"
    "Timers p = removeAll t (Timers s)" "TimersModified p"
    "tSkipped (heap p t)"
    "trace p = trace s
           @ (case GetRecordControl_FileName s t of
                None \<Rightarrow> [H_esyslog ''Permashift: Did not have file name of recording to delete!'']
              | Some f \<Rightarrow> [])
           @ [H_Skip t, H_RecordControls_Process (now s), H_Timers_Del t, H_Timers_SetModified]"
    by (elim conjE StopLiveRecording_outcome) blast
  have ok: "ok" and s': "s' = (delete_recording (GetRecordControl_FileName s t) p)
                \<lparr>m_stoppingRecording := False, m_liveTimer := None\<rparr>"
    using assms p(1) by simp_all
  show "ok" by (rule ok)
  show "m_liveTimer s' = None" by (simp add: s')
  show "tSkipped (heap s' t)" using p(6) by (simp add: s' delete_recording_frame)
  show "t \<notin> set (Timers s')" using p(4) by (simp add: s' delete_recording_frame)
  show "TimersModified s'" using p(5) by (simp add: s' delete_recording_frame)
  show "case GetRecordControl_FileName s t of
              None \<Rightarrow>
                trace s' = trace s
                  @ [H_esyslog ''Permashift: Did not have file name of recording to delete!'',
                     H_Skip t, H_RecordControls_Process (now s), H_Timers_Del t,
                     H_Timers_SetModified]
                \<and> Recordings s' = Recordings s \<and> DeletedStorage s' = DeletedStorage s
            | Some f \<Rightarrow>
                (case Recordings_GetByName s (Some f) of
                   None \<Rightarrow>
                     trace s' = trace s
                       @ [H_Skip t, H_RecordControls_Process (now s), H_Timers_Del t,
                          H_Timers_SetModified,
                          H_esyslog ''Permashift: Did not find recording to delete!'']
                     \<and> Recordings s' = Recordings s \<and> DeletedStorage s' = DeletedStorage s
                 | Some r \<Rightarrow>
                     if rDeleteOk r
                     then trace s' = trace s
                            @ [H_Skip t, H_RecordControls_Process (now s), H_Timers_Del t,
                               H_Timers_SetModified, H_Recording_Delete f,
                               H_Recordings_DelByName (Some f)]
                          \<and> Recordings s' = remove_first (\<lambda>x. rFileName x = f) (Recordings s)
                          \<and> DeletedStorage s' = DeletedStorage s @ [f]
                     else trace s' = trace s
                            @ [H_Skip t, H_RecordControls_Process (now s), H_Timers_Del t,
                               H_Timers_SetModified, H_Recording_Delete f,
                               H_esyslog ''Permashift: Deleting recording failed!'']
                          \<and> Recordings s' = Recordings s
                          \<and> DeletedStorage s' = DeletedStorage s)"
  proof (cases "GetRecordControl_FileName s t")
    case None
    then show ?thesis
      using p(2,3,7) by (simp add: s' delete_recording_cases(1))
  next
    case (Some f)
    have g: "Recordings_GetByName p (Some f) = Recordings_GetByName s (Some f)"
      using p(2) by (rule GetByName_cong)
    show ?thesis
    proof (cases "Recordings_GetByName s (Some f)")
      case None
      then have "delete_recording (Some f) p =
          p\<lparr>trace := trace p @ [H_esyslog ''Permashift: Did not find recording to delete!'']\<rparr>"
        using g by (simp add: delete_recording_cases(2))
      then show ?thesis
        using Some None p(2,3,7) by (simp add: s')
    next
      case (Some r)
      note r = this
      show ?thesis
      proof (cases "rDeleteOk r")
        case True
        have "delete_recording (Some f) p =
            p\<lparr>trace := trace p @ [H_Recording_Delete f, H_Recordings_DelByName (Some f)],
              DeletedStorage := DeletedStorage p @ [f],
              Recordings := remove_first (\<lambda>x. rFileName x = f) (Recordings p)\<rparr>"
          using g r True by (intro delete_recording_cases(3)) simp_all
        then show ?thesis
          using \<open>GetRecordControl_FileName s t = Some f\<close> r True p(2,3,7) by (simp add: s')
      next
        case False
        have "delete_recording (Some f) p =
            p\<lparr>trace := trace p @ [H_Recording_Delete f,
                                   H_esyslog ''Permashift: Deleting recording failed!'']\<rparr>"
          using g r False by (intro delete_recording_cases(4)) simp_all
        then show ?thesis
          using \<open>GetRecordControl_FileName s t = Some f\<close> r False p(2,3,7) by (simp add: s')
      qed
    qed
  qed
qed

text \<open>The world in which timer 1 is claimed and recording \<open>live.rec\<close>: the full path.\<close>

theorem C7_stop_live_recording_witness:
  "g_enablePlugin world_rec \<and> m_liveTimer world_rec = Some 1 \<and> 1 \<in> set (Timers world_rec)
   \<and> tPriority (heap world_rec 1) \<le> PausePriority world_rec
   \<and> tLifetime (heap world_rec 1) \<le> PauseLifetime world_rec
   \<and> fst (StopLiveRecording world_rec)
   \<and> m_liveTimer (snd (StopLiveRecording world_rec)) = None
   \<and> 1 \<notin> set (Timers (snd (StopLiveRecording world_rec)))
   \<and> Recordings (snd (StopLiveRecording world_rec)) = []
   \<and> DeletedStorage (snd (StopLiveRecording world_rec)) = [''live.rec'']"
proof -
  have h: "g_enablePlugin world_rec" "m_liveTimer world_rec = Some 1"
    "1 \<in> set (Timers world_rec)"
    "tPriority (heap world_rec 1) \<le> PausePriority world_rec"
    "tLifetime (heap world_rec 1) \<le> PauseLifetime world_rec"
    "GetRecordControl_FileName world_rec 1 = Some ''live.rec''"
    "Recordings_GetByName world_rec (Some ''live.rec'')
       = Some \<lparr>rFileName = ''live.rec'', rDeleteOk = True\<rparr>"
    "Recordings world_rec = [\<lparr>rFileName = ''live.rec'', rDeleteOk = True\<rparr>]"
    "DeletedStorage world_rec = []"
    by (simp_all add: example_defs GetRecordControl_FileName_def Recordings_GetByName_def)
  show ?thesis
    using C7_stop_live_recording
      [of world_rec "fst (StopLiveRecording world_rec)" "snd (StopLiveRecording world_rec)" 1] h
    by simp
qed

section \<open>C3: the claimed timer is deleted from outside\<close>

lemma TimerChange_del_external:
  assumes "\<not> m_stoppingRecording s" and "m_liveTimer s = Some t"
  shows "TimerChange s (Some t) tcDel =
     (if tIsSingleEvent (heap s t) \<and> \<not> tRecording (heap s t) \<and> tStopTime (heap s t) \<le> now s
      then (case Recordings_GetByName s (m_fileName s) of
              None \<Rightarrow> s
            | Some recording \<Rightarrow>
                (case Recording_Delete recording s of
                   (True, s') \<Rightarrow> Recordings_DelByName (m_fileName s') s'
                 | (False, s') \<Rightarrow> s'))
      else s)\<lparr>m_liveTimer := None\<rparr>"
  using assms by (simp add: TimerChange_def Let_def)

lemma GetByName_Some_name:
  assumes "Recordings_GetByName s n = Some r"
  shows "n = Some (rFileName r)"
proof (cases n)
  case None
  then show ?thesis using assms by (simp add: Recordings_GetByName_def)
next
  case (Some f)
  then have "List.find (\<lambda>r. rFileName r = f) (Recordings s) = Some r"
    using assms by (simp add: Recordings_GetByName_def)
  then have "rFileName r = f" by (rule find_Some_name)
  then show ?thesis using Some by simp
qed

text \<open>C3 as stated fails when the host cannot delete the storage: the recording under the
  captured file name stays in the index and no storage is deleted, although the timer was a
  single event, was not recording and had run out. (The claim is cleared all the same.)\<close>

theorem C3_undeletable_counterexample:
  "\<not> m_stoppingRecording world_undeletable \<and> m_liveTimer world_undeletable = Some 1
   \<and> tIsSingleEvent (heap world_undeletable 1) \<and> \<not> tRecording (heap world_undeletable 1)
   \<and> tStopTime (heap world_undeletable 1) \<le> now world_undeletable
   \<and> m_fileName world_undeletable = Some ''live.rec''
   \<and> Recordings world_undeletable = [\<lparr>rFileName = ''live.rec'', rDeleteOk = False\<rparr>]
   \<and> Recordings (TimerChange world_undeletable (Some 1) tcDel)
        = [\<lparr>rFileName = ''live.rec'', rDeleteOk = False\<rparr>]
   \<and> DeletedStorage (TimerChange world_undeletable (Some 1) tcDel) = []
   \<and> m_liveTimer (TimerChange world_undeletable (Some 1) tcDel) = None"
  by (simp add: TimerChange_def Recordings_GetByName_def Recording_Delete_def Let_def
        world_undeletable_def world_elapsed_def example_defs)

text \<open>C3 amended. On a timer-deleted notification for the claimed timer that is not caused
  by the plugin's own stopping: the claim is cleared in every case. If the timer is a single
  event, is not recording and its stop time has passed, and the index holds a recording under
  the previously captured file name, then the deletion of its storage is attempted and, when
  that succeeds, its entry is removed from the index (storage, then index); when it fails, the
  index keeps the entry. Nothing else changes. A notification that arrives while the stopping
  flag is set changes nothing at all.\<close>

theorem C3_timer_deleted:
  "(\<not> m_stoppingRecording s \<and> m_liveTimer s = Some t \<longrightarrow>
      m_liveTimer (TimerChange s (Some t) tcDel) = None
      \<and> (if tIsSingleEvent (heap s t) \<and> \<not> tRecording (heap s t) \<and> tStopTime (heap s t) \<le> now s
         then (case Recordings_GetByName s (m_fileName s) of
                 None \<Rightarrow> TimerChange s (Some t) tcDel = s\<lparr>m_liveTimer := None\<rparr>
               | Some r \<Rightarrow>
                   if rDeleteOk r
                   then TimerChange s (Some t) tcDel =
                          s\<lparr>trace := trace s @ [H_Recording_Delete (rFileName r),
                                                 H_Recordings_DelByName (m_fileName s)],
                            DeletedStorage := DeletedStorage s @ [rFileName r],
                            Recordings :=
                              remove_first (\<lambda>x. rFileName x = rFileName r) (Recordings s),
                            m_liveTimer := None\<rparr>
                   else TimerChange s (Some t) tcDel =
                          s\<lparr>trace := trace s @ [H_Recording_Delete (rFileName r)],
                            m_liveTimer := None\<rparr>)
         else TimerChange s (Some t) tcDel = s\<lparr>m_liveTimer := None\<rparr>))
   \<and> (m_stoppingRecording s \<longrightarrow> TimerChange s (Some t) tcDel = s)"
proof (intro conjI impI)
  assume "m_stoppingRecording s"
  then show "TimerChange s (Some t) tcDel = s" by (rule TimerChange_del_stopping)
next
  assume h: "\<not> m_stoppingRecording s \<and> m_liveTimer s = Some t"
  then have e: "TimerChange s (Some t) tcDel =
     (if tIsSingleEvent (heap s t) \<and> \<not> tRecording (heap s t) \<and> tStopTime (heap s t) \<le> now s
      then (case Recordings_GetByName s (m_fileName s) of
              None \<Rightarrow> s
            | Some recording \<Rightarrow>
                (case Recording_Delete recording s of
                   (True, s') \<Rightarrow> Recordings_DelByName (m_fileName s') s'
                 | (False, s') \<Rightarrow> s'))
      else s)\<lparr>m_liveTimer := None\<rparr>"
    by (intro TimerChange_del_external) simp_all
  show "m_liveTimer (TimerChange s (Some t) tcDel) = None"
    by (simp add: e)
  show "if tIsSingleEvent (heap s t) \<and> \<not> tRecording (heap s t) \<and> tStopTime (heap s t) \<le> now s
         then (case Recordings_GetByName s (m_fileName s) of
                 None \<Rightarrow> TimerChange s (Some t) tcDel = s\<lparr>m_liveTimer := None\<rparr>
               | Some r \<Rightarrow>
                   if rDeleteOk r
                   then TimerChange s (Some t) tcDel =
                          s\<lparr>trace := trace s @ [H_Recording_Delete (rFileName r),
                                                 H_Recordings_DelByName (m_fileName s)],
                            DeletedStorage := DeletedStorage s @ [rFileName r],
                            Recordings :=
                              remove_first (\<lambda>x. rFileName x = rFileName r) (Recordings s),
                            m_liveTimer := None\<rparr>
                   else TimerChange s (Some t) tcDel =
                          s\<lparr>trace := trace s @ [H_Recording_Delete (rFileName r)],
                            m_liveTimer := None\<rparr>)
         else TimerChange s (Some t) tcDel = s\<lparr>m_liveTimer := None\<rparr>"
  proof (cases "tIsSingleEvent (heap s t) \<and> \<not> tRecording (heap s t) \<and> tStopTime (heap s t) \<le> now s")
    case False
    then show ?thesis using e by auto
  next
    case c: True
    show ?thesis
    proof (cases "Recordings_GetByName s (m_fileName s)")
      case None
      then show ?thesis using e c by simp
    next
      case (Some r)
      then have n: "m_fileName s = Some (rFileName r)" by (rule GetByName_Some_name)
      show ?thesis
      proof (cases "rDeleteOk r")
        case True
        then have "TimerChange s (Some t) tcDel =
            (Recordings_DelByName (Some (rFileName r))
               (s\<lparr>trace := trace s @ [H_Recording_Delete (rFileName r)],
                  DeletedStorage := DeletedStorage s @ [rFileName r]\<rparr>))\<lparr>m_liveTimer := None\<rparr>"
          using e c Some n by (simp add: Recording_Delete_def Let_def)
        then show ?thesis
          using c Some True n by (simp add: Recordings_DelByName_def Let_def)
      next
        case False
        then show ?thesis
          using e c Some by (simp add: Recording_Delete_def Let_def)
      qed
    qed
  qed
qed

text \<open>In the world where the claimed timer has run out and the storage can be deleted, the
  recording leaves the storage and the index; while the stopping flag is set, nothing
  happens.\<close>

theorem C3_timer_deleted_witness:
  "\<not> m_stoppingRecording world_elapsed \<and> m_liveTimer world_elapsed = Some 1
   \<and> m_liveTimer (TimerChange world_elapsed (Some 1) tcDel) = None
   \<and> TimerChange world_elapsed (Some 1) tcDel =
        world_elapsed\<lparr>trace := [H_Recording_Delete ''live.rec'',
                                 H_Recordings_DelByName (Some ''live.rec'')],
                       DeletedStorage := [''live.rec''], Recordings := [],
                       m_liveTimer := None\<rparr>
   \<and> m_stoppingRecording (world_elapsed\<lparr>m_stoppingRecording := True\<rparr>)
   \<and> TimerChange (world_elapsed\<lparr>m_stoppingRecording := True\<rparr>) (Some 1) tcDel
        = world_elapsed\<lparr>m_stoppingRecording := True\<rparr>"
proof -
  have h: "\<not> m_stoppingRecording world_elapsed" "m_liveTimer world_elapsed = Some 1"
    "tIsSingleEvent (heap world_elapsed 1)" "\<not> tRecording (heap world_elapsed 1)"
    "tStopTime (heap world_elapsed 1) \<le> now world_elapsed"
    "m_fileName world_elapsed = Some ''live.rec''"
    "Recordings_GetByName world_elapsed (Some ''live.rec'')
       = Some \<lparr>rFileName = ''live.rec'', rDeleteOk = True\<rparr>"
    "Recordings world_elapsed = [\<lparr>rFileName = ''live.rec'', rDeleteOk = True\<rparr>]"
    "DeletedStorage world_elapsed = []" "trace world_elapsed = []"
    by (simp_all add: world_elapsed_def example_defs Recordings_GetByName_def)
  show ?thesis
    using C3_timer_deleted [of world_elapsed 1]
      C3_timer_deleted [of "world_elapsed\<lparr>m_stoppingRecording := True\<rparr>" 1] h
    by simp
qed

section \<open>C9: parsing the settings\<close>

lemma atoi_digits_no_digit: "(case cs of [] \<Rightarrow> True | d # ds \<Rightarrow> \<not> isdigit d) \<Longrightarrow> atoi_digits a cs = a"
  by (cases cs) simp_all

lemma atoi_malformed: "malformed Value \<Longrightarrow> atoi Value = 0"
proof -
  assume m: "malformed Value"
  show ?thesis
  proof (cases "dropWhile isspace Value")
    case Nil
    show ?thesis unfolding atoi_def Nil by simp
  next
    case (Cons c cs)
    note m' = m [unfolded malformed_def Cons list.case]
    show ?thesis
    proof (cases "c = CHR ''-'' \<or> c = CHR ''+''")
      case True
      then have "case cs of [] \<Rightarrow> True | d # ds \<Rightarrow> \<not> isdigit d"
        using m' by simp
      then have "atoi_digits 0 cs = 0"
        by (rule atoi_digits_no_digit)
      then show ?thesis unfolding atoi_def Cons list.case using True by auto
    next
      case False
      then have "\<not> isdigit c" using m' by simp
      then show ?thesis unfolding atoi_def Cons list.case using False by simp
    qed
  qed
qed

text \<open>C9 as stated fails for the integer setting: the value \<open>abc\<close> is stored as 0, which
  is not between 1 and 23.\<close>

theorem C9_malformed_counterexample:
  "malformed ''abc''
   \<and> SetupParse world0 MenuEntry_MaxLength ''abc'' = (True, world0\<lparr>g_maxLength := 0\<rparr>)
   \<and> \<not> (1 \<le> g_maxLength (snd (SetupParse world0 MenuEntry_MaxLength ''abc''))
         \<and> g_maxLength (snd (SetupParse world0 MenuEntry_MaxLength ''abc'')) \<le> 23)"
  by (simp add: SetupParse_def MenuEntry_MaxLength_def MenuEntry_EnablePlugin_def atoi_def
        malformed_def isspace_def isdigit_def)

text \<open>C9 amended. For the boolean setting, every value other than exactly \<open>1\<close> is treated
  as false. For the integer setting, the value is what \<open>atoi\<close> reads, stored without any
  check: a malformed value silently becomes 0, which is outside the documented range from 1
  to 23.\<close>

theorem C9_setup_parse:
  "SetupParse s MenuEntry_EnablePlugin Value = (True, s\<lparr>g_enablePlugin := (Value = ''1'')\<rparr>)
   \<and> SetupParse s MenuEntry_MaxLength Value = (True, s\<lparr>g_maxLength := atoi Value\<rparr>)
   \<and> (malformed Value \<longrightarrow>
        SetupParse s MenuEntry_MaxLength Value = (True, s\<lparr>g_maxLength := 0\<rparr>))"
  by (simp add: SetupParse_def MenuEntry_MaxLength_def MenuEntry_EnablePlugin_def atoi_malformed)

theorem C9_setup_parse_witness:
  "g_enablePlugin (snd (SetupParse world0 MenuEntry_EnablePlugin ''1''))
   \<and> \<not> g_enablePlugin (snd (SetupParse world0 MenuEntry_EnablePlugin ''true''))
   \<and> \<not> g_enablePlugin (snd (SetupParse world0 MenuEntry_EnablePlugin ''01''))
   \<and> malformed ''-x''
   \<and> SetupParse world0 MenuEntry_MaxLength ''-x'' = (True, world0\<lparr>g_maxLength := 0\<rparr>)"
proof -
  have m: "malformed ''-x''"
    by (simp add: malformed_def isspace_def isdigit_def)
  have a: "g_enablePlugin (snd (SetupParse world0 MenuEntry_EnablePlugin ''1''))"
    using C9_setup_parse [of world0 "''1''"] by simp
  have b: "\<not> g_enablePlugin (snd (SetupParse world0 MenuEntry_EnablePlugin ''true''))"
    using C9_setup_parse [of world0 "''true''"] by simp
  have c: "\<not> g_enablePlugin (snd (SetupParse world0 MenuEntry_EnablePlugin ''01''))"
    using C9_setup_parse [of world0 "''01''"] by simp
  have d: "SetupParse world0 MenuEntry_MaxLength ''-x'' = (True, world0\<lparr>g_maxLength := 0\<rparr>)"
    using C9_setup_parse [of world0 "''-x''"] m by blast
  show ?thesis
    using a b c d m by blast
qed

section \<open>The transient flags and the prompts across stop-live-recording\<close>

lemma RecordControls_Start_stopping:
  "m_stoppingRecording (RecordControls_Start P s) = m_stoppingRecording s"
  by (simp add: RecordControls_Start_def Let_def TimerChange_flags Recording_flags
        split: option.splits prod.splits)

lemma StartLiveRecording_flags:
  "flags_clear s \<Longrightarrow> flags_clear (snd (StartLiveRecording s n))"
  by (simp add: StartLiveRecording_def flags_clear_def Let_def esyslog_def
        RecordControls_Start_stopping split: option.splits)

lemma delete_recording_prompts: "prompts (delete_recording fn s) = prompts s"
  by (simp add: delete_recording_def Recording_Delete_def Recordings_DelByName_def
        esyslog_def Let_def prompts_def split: option.splits)

lemma StopLiveRecording_keeps:
  "flags_clear s \<Longrightarrow> flags_clear (snd (StopLiveRecording s))"
  "prompts (snd (StopLiveRecording s)) = prompts s"
proof -
  consider (off) "\<not> g_enablePlugin s \<or> m_liveTimer s = None"
    | (gone) t where "g_enablePlugin s" "m_liveTimer s = Some t" "t \<notin> set (Timers s)"
    | (promoted) t where "g_enablePlugin s" "m_liveTimer s = Some t" "t \<in> set (Timers s)"
        "tPriority (heap s t) > PausePriority s \<or> tLifetime (heap s t) > PauseLifetime s"
    | (full) t where "g_enablePlugin s" "m_liveTimer s = Some t" "t \<in> set (Timers s)"
        "tPriority (heap s t) \<le> PausePriority s" "tLifetime (heap s t) \<le> PauseLifetime s"
    by (cases "m_liveTimer s") fastforce+
  then have "(flags_clear s \<longrightarrow> flags_clear (snd (StopLiveRecording s)))
      \<and> prompts (snd (StopLiveRecording s)) = prompts s"
  proof cases
    case off
    then have "StopLiveRecording s = (True, s)"
      using StopLiveRecording_disabled StopLiveRecording_idle by blast
    then show ?thesis by simp
  next
    case gone
    then show ?thesis
      by (simp add: StopLiveRecording_gone flags_clear_def prompts_def)
  next
    case promoted
    then show ?thesis
      by (simp add: StopLiveRecording_promoted flags_clear_def prompts_def)
  next
    case full
    then obtain p where p:
      "StopLiveRecording s =
         (True, (delete_recording (GetRecordControl_FileName s t) p)
                  \<lparr>m_stoppingRecording := False, m_liveTimer := None\<rparr>)"
      "m_startingRecording p = m_startingRecording s"
      "trace p = trace s
           @ (case GetRecordControl_FileName s t of
                None \<Rightarrow> [H_esyslog ''Permashift: Did not have file name of recording to delete!'']
              | Some f \<Rightarrow> [])
           @ [H_Skip t, H_RecordControls_Process (now s), H_Timers_Del t, H_Timers_SetModified]"
      by (elim StopLiveRecording_outcome) blast
    have "prompts p = prompts s"
      using p(3) by (simp add: prompts_def split: option.splits)
    moreover have "prompts (snd (StopLiveRecording s))
        = prompts (delete_recording (GetRecordControl_FileName s t) p)"
      by (simp add: p(1) prompts_def)
    ultimately have "prompts (snd (StopLiveRecording s)) = prompts s"
      by (simp add: delete_recording_prompts)
    moreover have "flags_clear (snd (StopLiveRecording s))" if "flags_clear s"
      using that p(2) by (simp add: p(1) flags_clear_def delete_recording_frame)
    ultimately show ?thesis by simp
  qed
  then show "flags_clear s \<Longrightarrow> flags_clear (snd (StopLiveRecording s))"
    and "prompts (snd (StopLiveRecording s)) = prompts s"
    by simp_all
qed

lemma MainThreadHook_flags: "flags_clear s \<Longrightarrow> flags_clear (MainThreadHook s)"
proof -
  assume f: "flags_clear s"
  have a: "flags_clear (s\<lparr>m_mainThreadCounter := c\<rparr>)" for c
    using f by (simp add: flags_clear_def)
  have b: "flags_clear (x\<lparr>m_mainThreadCounter := c\<rparr>)" if "flags_clear x" for x c
    using that by (simp add: flags_clear_def)
  have c: "flags_clear (snd (StopLiveRecording
      (s\<lparr>m_mainThreadCounter := c, trace := tr\<rparr>)))" for c tr
    using f by (intro StopLiveRecording_keeps(1)) (simp add: flags_clear_def)
  have d: "flags_clear (s\<lparr>m_mainThreadCounter := c, trace := tr\<rparr>)" for c tr
    using f by (simp add: flags_clear_def)
  show ?thesis
    by (simp add: MainThreadHook_def Let_def Interface_Confirm_def a b c d
          split: option.splits bool.splits)
qed

section \<open>C10: the starting and stopping flags\<close>

text \<open>C10 as stated fails for the two notifications. They never touch the flags, and the host
  delivers them while the plugin's own call is running: the timer-added notification of the
  instant timer arrives with the starting flag set (that is what the flag is for) and returns
  with it still set.\<close>

theorem C10_nested_counterexample:
  "m_startingRecording world_starting
   \<and> m_liveTimer (TimerChange world_starting (Some 1) tcAdd) = Some 1
   \<and> m_startingRecording (TimerChange world_starting (Some 1) tcAdd)
   \<and> \<not> flags_clear (TimerChange world_starting (Some 1) tcAdd)
   \<and> m_fileName (Recording world_starting (Some ''live'') ''live.rec'' True) = Some ''live.rec''
   \<and> \<not> flags_clear (Recording world_starting (Some ''live'') ''live.rec'' True)"
  by (simp add: TimerChange_def Recording_def Let_def Timer_SetPriority_def Timer_SetStop_def
        flags_clear_def world_starting_def world0_def)

text \<open>C10 amended. Start-live-recording, stop-live-recording and the periodic tick return
  with both flags false whenever both were false when they were entered. The timer-change and
  the recording notifications never change either flag: entered with both flags false they
  return with both false, and entered during the plugin's own host call they return with that
  call's flag still set.\<close>

theorem C10_flags:
  "(flags_clear s \<longrightarrow>
      flags_clear (snd (StartLiveRecording s channelNumber))
      \<and> flags_clear (snd (StopLiveRecording s))
      \<and> flags_clear (MainThreadHook s)
      \<and> flags_clear (TimerChange s Timer Change)
      \<and> flags_clear (Recording s Name FileName On))
   \<and> m_startingRecording (TimerChange s Timer Change) = m_startingRecording s
   \<and> m_stoppingRecording (TimerChange s Timer Change) = m_stoppingRecording s
   \<and> m_startingRecording (Recording s Name FileName On) = m_startingRecording s
   \<and> m_stoppingRecording (Recording s Name FileName On) = m_stoppingRecording s"
  by (simp add: StartLiveRecording_flags StopLiveRecording_keeps(1) MainThreadHook_flags
        TimerChange_flags Recording_flags flags_clear_def [of "TimerChange s Timer Change"]
        flags_clear_def [of "Recording s Name FileName On"])
    (simp add: flags_clear_def)

theorem C10_flags_witness:
  "flags_clear world_rec
   \<and> flags_clear (snd (StartLiveRecording world_rec 2))
   \<and> flags_clear (snd (StopLiveRecording world_rec))
   \<and> flags_clear (MainThreadHook world_rec)
   \<and> flags_clear (TimerChange world_rec (Some 1) tcDel)
   \<and> flags_clear (Recording world_rec None ''live.rec'' False)"
proof -
  have h: "flags_clear world_rec"
    by (simp add: flags_clear_def example_defs)
  show ?thesis
    using C10_flags [of world_rec 2 "Some 1" tcDel None "''live.rec''" False] h by blast
qed

section \<open>C5: the periodic tick\<close>

lemma tick_below:
  "m_mainThreadCounter s < 60 \<Longrightarrow>
   MainThreadHook s = s\<lparr>m_mainThreadCounter := m_mainThreadCounter s + 1\<rparr>"
  by (simp add: MainThreadHook_def Let_def)

lemma ticks_below:
  "m_mainThreadCounter s + int n \<le> 60 \<Longrightarrow>
   (MainThreadHook ^^ n) s = s\<lparr>m_mainThreadCounter := m_mainThreadCounter s + int n\<rparr>"
proof (induction n)
  case 0
  then show ?case by simp
next
  case (Suc n)
  then have ih: "(MainThreadHook ^^ n) s
      = s\<lparr>m_mainThreadCounter := m_mainThreadCounter s + int n\<rparr>"
    by simp
  have lt: "m_mainThreadCounter (s\<lparr>m_mainThreadCounter := m_mainThreadCounter s + int n\<rparr>) < 60"
    using Suc.prems by simp
  have "(MainThreadHook ^^ Suc n) s = MainThreadHook ((MainThreadHook ^^ n) s)"
    by simp
  also have "\<dots> = MainThreadHook (s\<lparr>m_mainThreadCounter := m_mainThreadCounter s + int n\<rparr>)"
    by (simp only: ih)
  also have "\<dots> = s\<lparr>m_mainThreadCounter := m_mainThreadCounter s + int (Suc n)\<rparr>"
    by (simp add: tick_below [OF lt] add.assoc)
  finally show ?case .
qed

lemma tick_at_60:
  assumes "m_mainThreadCounter s = 60" and "m_liveTimer s = Some t" and "UserInactive s"
  shows "MainThreadHook s =
    (if PromptKey s = kNone
     then snd (StopLiveRecording
            (s\<lparr>m_mainThreadCounter := 61,
               trace := trace s @ [H_Confirm ''Press key to continue permanent timeshift'' 300 True]\<rparr>))
     else s\<lparr>m_mainThreadCounter := 61,
            trace := trace s @ [H_Confirm ''Press key to continue permanent timeshift'' 300 True]\<rparr>)
    \<lparr>m_mainThreadCounter := 0\<rparr>"
  using assms
  by (simp add: MainThreadHook_def Let_def Interface_Confirm_def EXPIRECANCELPROMPT_def)

lemma ticks_61:
  assumes "m_mainThreadCounter s = 0" and "m_liveTimer s = Some t" and "UserInactive s"
  shows "(MainThreadHook ^^ 61) s =
    (if PromptKey s = kNone
     then snd (StopLiveRecording
            (s\<lparr>m_mainThreadCounter := 61,
               trace := trace s @ [H_Confirm ''Press key to continue permanent timeshift'' 300 True]\<rparr>))
     else s\<lparr>m_mainThreadCounter := 61,
            trace := trace s @ [H_Confirm ''Press key to continue permanent timeshift'' 300 True]\<rparr>)
    \<lparr>m_mainThreadCounter := 0\<rparr>"
proof -
  have a: "(MainThreadHook ^^ 60) s = s\<lparr>m_mainThreadCounter := 60\<rparr>"
    using ticks_below [of s 60] assms(1) by simp
  have "(MainThreadHook ^^ 61) s = MainThreadHook ((MainThreadHook ^^ 60) s)"
    using funpow.simps(2) [of 60 MainThreadHook] by simp
  then have "(MainThreadHook ^^ 61) s = MainThreadHook (s\<lparr>m_mainThreadCounter := 60\<rparr>)"
    using a by simp
  then show ?thesis
    using tick_at_60 [of "s\<lparr>m_mainThreadCounter := 60\<rparr>" t] assms by simp
qed

text \<open>C5 as stated fails: \<open>m_mainThreadCounter++ >= 60\<close> compares the value before the
  increment, so 60 ticks from a zero counter only count to 60. No prompt has been shown and
  the counter has not been reset, although the user is idle and a timer is claimed.\<close>

theorem C5_sixty_ticks_counterexample:
  "m_mainThreadCounter world_idle = 0 \<and> m_liveTimer world_idle = Some 1
   \<and> UserInactive world_idle
   \<and> prompts ((MainThreadHook ^^ 60) world_idle) = 0
   \<and> trace ((MainThreadHook ^^ 60) world_idle) = []
   \<and> m_mainThreadCounter ((MainThreadHook ^^ 60) world_idle) = 60"
proof -
  have h: "m_mainThreadCounter world_idle = 0" "m_liveTimer world_idle = Some 1"
    "UserInactive world_idle" "trace world_idle = []"
    by (simp_all add: world_idle_def example_defs)
  have "(MainThreadHook ^^ 60) world_idle = world_idle\<lparr>m_mainThreadCounter := 60\<rparr>"
    using ticks_below [of world_idle 60] h(1) by simp
  then show ?thesis
    using h by (simp add: prompts_def)
qed

text \<open>C5 amended. Starting from a zero tick counter, with an idle user and a claimed timer,
  60 consecutive ticks only count: no prompt, no other change, the counter at 60. The 61st
  tick shows exactly one confirmation prompt, with a timeout of 300 seconds, and resets the
  counter to 0. When no key is pressed before the timeout, stop-live-recording is called
  exactly once; when a key is pressed, it is not called and nothing else changes.\<close>

theorem C5_ticks:
  assumes "m_mainThreadCounter s = 0" and "m_liveTimer s = Some t" and "UserInactive s"
  shows "(MainThreadHook ^^ 60) s = s\<lparr>m_mainThreadCounter := 60\<rparr>
    \<and> prompts ((MainThreadHook ^^ 61) s) = prompts s + 1
    \<and> m_mainThreadCounter ((MainThreadHook ^^ 61) s) = 0
    \<and> (PromptKey s = kNone \<longrightarrow>
         (MainThreadHook ^^ 61) s =
           (snd (StopLiveRecording
              (s\<lparr>m_mainThreadCounter := 61,
                 trace := trace s
                   @ [H_Confirm ''Press key to continue permanent timeshift'' 300 True]\<rparr>)))
           \<lparr>m_mainThreadCounter := 0\<rparr>)
    \<and> (PromptKey s \<noteq> kNone \<longrightarrow>
         (MainThreadHook ^^ 61) s =
           s\<lparr>m_mainThreadCounter := 0,
             trace := trace s
               @ [H_Confirm ''Press key to continue permanent timeshift'' 300 True]\<rparr>)"
proof -
  define s1 where "s1 = s\<lparr>m_mainThreadCounter := 61,
    trace := trace s @ [H_Confirm ''Press key to continue permanent timeshift'' 300 True]\<rparr>"
  have e: "(MainThreadHook ^^ 61) s =
      (if PromptKey s = kNone then snd (StopLiveRecording s1) else s1)
        \<lparr>m_mainThreadCounter := 0\<rparr>"
    unfolding s1_def by (rule ticks_61 [OF assms])
  have p1: "prompts s1 = prompts s + 1"
    by (simp add: s1_def prompts_def)
  have pc: "prompts (x\<lparr>m_mainThreadCounter := 0\<rparr>) = prompts x" for x
    by (simp add: prompts_def)
  have a: "(MainThreadHook ^^ 60) s = s\<lparr>m_mainThreadCounter := 60\<rparr>"
    using ticks_below [of s 60] assms(1) by simp
  have b: "prompts ((MainThreadHook ^^ 61) s) = prompts s + 1"
    by (simp add: e pc p1 StopLiveRecording_keeps(2))
  have c: "m_mainThreadCounter ((MainThreadHook ^^ 61) s) = 0"
    by (simp add: e)
  have d: "PromptKey s = kNone \<longrightarrow>
      (MainThreadHook ^^ 61) s = (snd (StopLiveRecording s1))\<lparr>m_mainThreadCounter := 0\<rparr>"
    by (simp add: e)
  have f: "PromptKey s \<noteq> kNone \<longrightarrow>
      (MainThreadHook ^^ 61) s = s1\<lparr>m_mainThreadCounter := 0\<rparr>"
    by (simp add: e)
  show ?thesis
    using a b c d f unfolding s1_def by simp
qed

text \<open>With timer 1 claimed and an idle user: without a key the 61st tick stops and deletes the
  recording; with the Ok key the claim stays.\<close>

theorem C5_ticks_witness:
  "m_mainThreadCounter world_idle = 0 \<and> m_liveTimer world_idle = Some 1
   \<and> UserInactive world_idle \<and> PromptKey world_idle = kNone
   \<and> (MainThreadHook ^^ 60) world_idle = world_idle\<lparr>m_mainThreadCounter := 60\<rparr>
   \<and> prompts ((MainThreadHook ^^ 61) world_idle) = 1
   \<and> m_mainThreadCounter ((MainThreadHook ^^ 61) world_idle) = 0
   \<and> m_liveTimer ((MainThreadHook ^^ 61) world_idle) = None
   \<and> Timers ((MainThreadHook ^^ 61) world_idle) = []
   \<and> prompts ((MainThreadHook ^^ 61) (world_idle\<lparr>PromptKey := kOk\<rparr>)) = 1
   \<and> m_liveTimer ((MainThreadHook ^^ 61) (world_idle\<lparr>PromptKey := kOk\<rparr>)) = Some 1
   \<and> Timers ((MainThreadHook ^^ 61) (world_idle\<lparr>PromptKey := kOk\<rparr>)) = [1]"
proof -
  have h: "m_mainThreadCounter world_idle = 0" "m_liveTimer world_idle = Some 1"
    "UserInactive world_idle" "PromptKey world_idle = kNone" "prompts world_idle = 0"
    "Timers world_idle = [1]"
    by (simp_all add: world_idle_def example_defs prompts_def)
  have st: "m_liveTimer (snd (StopLiveRecording
      (world_idle\<lparr>m_mainThreadCounter := 61,
         trace := trace world_idle
           @ [H_Confirm ''Press key to continue permanent timeshift'' 300 True]\<rparr>))) = None"
    "Timers (snd (StopLiveRecording
      (world_idle\<lparr>m_mainThreadCounter := 61,
         trace := trace world_idle
           @ [H_Confirm ''Press key to continue permanent timeshift'' 300 True]\<rparr>))) = []"
    by (simp_all add: StopLiveRecording_def TimerChange_def Recording_def host_defs
          world_idle_def example_defs Let_def)
  have k: "m_mainThreadCounter (world_idle\<lparr>PromptKey := kOk\<rparr>) = 0"
    "m_liveTimer (world_idle\<lparr>PromptKey := kOk\<rparr>) = Some 1"
    "UserInactive (world_idle\<lparr>PromptKey := kOk\<rparr>)"
    "PromptKey (world_idle\<lparr>PromptKey := kOk\<rparr>) \<noteq> kNone"
    "prompts (world_idle\<lparr>PromptKey := kOk\<rparr>) = 0"
    "Timers (world_idle\<lparr>PromptKey := kOk\<rparr>) = [1]"
    using h by (simp_all add: prompts_def)
  note T = C5_ticks [OF h(1,2,3)]
  have e: "(MainThreadHook ^^ 61) world_idle =
      (snd (StopLiveRecording
         (world_idle\<lparr>m_mainThreadCounter := 61,
            trace := trace world_idle
              @ [H_Confirm ''Press key to continue permanent timeshift'' 300 True]\<rparr>)))
      \<lparr>m_mainThreadCounter := 0\<rparr>"
    using T h(4) by blast
  have w1: "(MainThreadHook ^^ 60) world_idle = world_idle\<lparr>m_mainThreadCounter := 60\<rparr>"
    "prompts ((MainThreadHook ^^ 61) world_idle) = 1"
    "m_mainThreadCounter ((MainThreadHook ^^ 61) world_idle) = 0"
    using T h(5) by simp_all
  have w1': "m_liveTimer ((MainThreadHook ^^ 61) world_idle) = None"
    "Timers ((MainThreadHook ^^ 61) world_idle) = []"
    using st by (simp_all add: e)
  note K = C5_ticks [OF k(1,2,3)]
  have e2: "(MainThreadHook ^^ 61) (world_idle\<lparr>PromptKey := kOk\<rparr>) =
      world_idle\<lparr>PromptKey := kOk, m_mainThreadCounter := 0,
        trace := trace world_idle
          @ [H_Confirm ''Press key to continue permanent timeshift'' 300 True]\<rparr>"
    using K k(4) by simp
  have w2: "prompts ((MainThreadHook ^^ 61) (world_idle\<lparr>PromptKey := kOk\<rparr>)) = 1"
    using h(5) by (simp add: e2 prompts_def)
  have w2': "m_liveTimer ((MainThreadHook ^^ 61) (world_idle\<lparr>PromptKey := kOk\<rparr>)) = Some 1"
    "Timers ((MainThreadHook ^^ 61) (world_idle\<lparr>PromptKey := kOk\<rparr>)) = [1]"
    using h(2,6) by (simp_all add: e2)
  show ?thesis
    using h(1,2,3,4) w1 w1' w2 w2' by blast
qed

end
